theory Spec2Isabelle
  imports Complex_Main "HOL-Library.Log_Nat"
begin

section \<open>The artifact\<close>

text \<open>
  The presentation components receive the persisted artifact as \<^verbatim>\<open>data: any\<close>. The
  fields they read are \<^verbatim>\<open>data.hands[label]["players_N"].equity\<close>: a dictionary from
  hand labels to a dictionary from table-size keys to an entry with a number
  \<^verbatim>\<open>equity\<close>. A key that is absent reads as \<^verbatim>\<open>undefined\<close> in the source and as
  \<open>None\<close> here, and so does a key that holds \<^verbatim>\<open>null\<close>, which the components treat
  alike; an entry that is there is an object, which is truthy, so the tests
  \<^verbatim>\<open>!handData\<close> and \<^verbatim>\<open>playerData ? ... : 0\<close> of the source are tests for presence.
  The field \<open>equity\<close> holds the number as the JSON text writes it; what the program
  computes with is the double nearest to it (\<open>number_of_real\<close> below).
\<close>

record player_entry =
  equity :: real

type_synonym hand_entry = "string \<rightharpoonup> player_entry"

record artifact =
  hands :: "string \<rightharpoonup> hand_entry"

datatype js_error = TypeError

text \<open>Sequencing of reads that may throw: the first exception ends the evaluation.\<close>

definition thenE :: "js_error + 'a \<Rightarrow> ('a \<Rightarrow> js_error + 'b) \<Rightarrow> js_error + 'b" where
  "thenE m f = (case m of Inl e \<Rightarrow> Inl e | Inr x \<Rightarrow> f x)"

section \<open>Numbers\<close>

text \<open>
  A number of the language is an IEEE 754 binary64 value: a finite one, held as the real
  number it denotes, an infinity, or \<^verbatim>\<open>NaN\<close>. The two zeros are one value here: the
  components add, subtract and multiply, divide by a count that is not negative, compare
  with \<^verbatim>\<open>>=\<close> and print with \<^verbatim>\<open>toFixed\<close>, none of which tells \<^verbatim>\<open>-0\<close> from \<^verbatim>\<open>0\<close>.
\<close>

datatype number = Finite real | PosInf | NegInf | NaN

instantiation number :: zero
begin

definition zero_number :: number where
  "zero_number = Finite 0"

instance ..

end

text \<open>
  The binade of a real that is not zero: the \<open>e\<close> with \<open>2^e \<le> \<bar>x\<bar> < 2^(e + 1)\<close>. The
  spacing of the doubles around \<open>x\<close> is \<open>2^(e - 52)\<close>, and \<open>2^(-1074)\<close> below the
  smallest normal number \<open>2^(-1022)\<close>.
\<close>

definition binade :: "real \<Rightarrow> int" where
  "binade x = (if 1 \<le> \<bar>x\<bar> then bitlen \<lfloor>\<bar>x\<bar>\<rfloor> - 1 else - bitlen (\<lceil>1 / \<bar>x\<bar>\<rceil> - 1))"

definition ulp :: "real \<Rightarrow> real" where
  "ulp x = 2 powi (max (binade x) (- 1022) - 52)"

text \<open>The nearest integer, the even one on a tie.\<close>

definition round_half_even :: "real \<Rightarrow> int" where
  "round_half_even y =
     (let f = \<lfloor>y\<rfloor>
      in if y - of_int f < 1 / 2 then f
         else if y - of_int f > 1 / 2 then f + 1
         else if even f then f else f + 1)"

text \<open>
  Rounding of an exact result to the nearest double, ties to even, and to an infinity
  once the rounded magnitude reaches \<open>2^1024\<close>. This is also what \<^verbatim>\<open>JSON.parse\<close> does
  with the decimal text of a number.
\<close>

definition round64 :: "real \<Rightarrow> real" where
  "round64 x = (if x = 0 then 0 else ulp x * of_int (round_half_even (x / ulp x)))"

definition number_of_real :: "real \<Rightarrow> number" where
  "number_of_real x =
     (let r = round64 x
      in if r \<ge> 2 ^ 1024 then PosInf else if r \<le> - (2 ^ 1024) then NegInf else Finite r)"

text \<open>The operators \<^verbatim>\<open>*\<close>, \<^verbatim>\<open>+\<close> and \<^verbatim>\<open>-\<close>.\<close>

definition fmul :: "number \<Rightarrow> number \<Rightarrow> number" where
  "fmul a b =
     (case (a, b) of
        (Finite x, Finite y) \<Rightarrow> number_of_real (x * y)
      | (NaN, _) \<Rightarrow> NaN
      | (_, NaN) \<Rightarrow> NaN
      | (Finite x, PosInf) \<Rightarrow> (if x = 0 then NaN else if x > 0 then PosInf else NegInf)
      | (Finite x, NegInf) \<Rightarrow> (if x = 0 then NaN else if x > 0 then NegInf else PosInf)
      | (PosInf, Finite y) \<Rightarrow> (if y = 0 then NaN else if y > 0 then PosInf else NegInf)
      | (NegInf, Finite y) \<Rightarrow> (if y = 0 then NaN else if y > 0 then NegInf else PosInf)
      | (PosInf, PosInf) \<Rightarrow> PosInf
      | (PosInf, NegInf) \<Rightarrow> NegInf
      | (NegInf, PosInf) \<Rightarrow> NegInf
      | (NegInf, NegInf) \<Rightarrow> PosInf)"

definition fadd :: "number \<Rightarrow> number \<Rightarrow> number" where
  "fadd a b =
     (case (a, b) of
        (Finite x, Finite y) \<Rightarrow> number_of_real (x + y)
      | (NaN, _) \<Rightarrow> NaN
      | (_, NaN) \<Rightarrow> NaN
      | (PosInf, NegInf) \<Rightarrow> NaN
      | (NegInf, PosInf) \<Rightarrow> NaN
      | (PosInf, _) \<Rightarrow> PosInf
      | (NegInf, _) \<Rightarrow> NegInf
      | (Finite x, PosInf) \<Rightarrow> PosInf
      | (Finite x, NegInf) \<Rightarrow> NegInf)"

definition fneg :: "number \<Rightarrow> number" where
  "fneg a = (case a of Finite x \<Rightarrow> Finite (- x) | PosInf \<Rightarrow> NegInf | NegInf \<Rightarrow> PosInf | NaN \<Rightarrow> NaN)"

definition fsub :: "number \<Rightarrow> number \<Rightarrow> number" where
  "fsub a b = fadd a (fneg b)"

text \<open>
  \<^verbatim>\<open>sum / count\<close> for a counter \<^verbatim>\<open>count\<close>, a whole number that is not negative (and far
  below \<open>2^53\<close>, so it is a double as it stands). A count of zero is the positive zero.
\<close>

definition fdiv_count :: "number \<Rightarrow> nat \<Rightarrow> number" where
  "fdiv_count a n =
     (case a of
        Finite x \<Rightarrow>
          (if n = 0 then (if x = 0 then NaN else if x > 0 then PosInf else NegInf)
           else number_of_real (x / real n))
      | PosInf \<Rightarrow> PosInf
      | NegInf \<Rightarrow> NegInf
      | NaN \<Rightarrow> NaN)"

text \<open>\<^verbatim>\<open>x >= c\<close> for a finite \<open>c\<close>, and \<^verbatim>\<open>x > 0\<close>: every comparison with \<^verbatim>\<open>NaN\<close> is false.\<close>

definition fge :: "number \<Rightarrow> real \<Rightarrow> bool" where
  "fge a c = (case a of Finite x \<Rightarrow> x \<ge> c | PosInf \<Rightarrow> True | NegInf \<Rightarrow> False | NaN \<Rightarrow> False)"

definition positive :: "number \<Rightarrow> bool" where
  "positive a = (case a of Finite x \<Rightarrow> x > 0 | PosInf \<Rightarrow> True | NegInf \<Rightarrow> False | NaN \<Rightarrow> False)"

section \<open>Numbers as text\<close>

text \<open>The decimal digit for a number below ten.\<close>

definition digit_char :: "nat \<Rightarrow> char" where
  "digit_char d = ''0123456789'' ! (d mod 10)"

fun string_of_nat :: "nat \<Rightarrow> string" where
  "string_of_nat n =
     (if n < 10 then [digit_char n] else string_of_nat (n div 10) @ [digit_char (n mod 10)])"

declare string_of_nat.simps [simp del]

text \<open>
  \<^verbatim>\<open>Number.prototype.toFixed(1)\<close> on a magnitude below \<open>10^21\<close>, as ECMAScript defines it:
  the integer \<open>n\<close> nearest to ten times the magnitude (the larger one on a tie), its
  digits padded with a zero to at least two, and a point before the last digit.
\<close>

definition fixed_digits :: "real \<Rightarrow> string" where
  "fixed_digits x =
     (let n = nat \<lfloor>x * 10 + 1 / 2\<rfloor>;
          m = string_of_nat n;
          m = (if length m \<le> 1 then replicate (2 - length m) (CHR ''0'') @ m else m);
          k = length m
      in take (k - 1) m @ ''.'' @ drop (k - 1) m)"

text \<open>
  From \<open>10^21\<close> on \<^verbatim>\<open>toFixed\<close> prints what \<^verbatim>\<open>Number.prototype.toString\<close> prints, which is
  exponent notation there: with \<open>k\<close> the least number of digits for which some integer
  \<open>s\<close> of \<open>k\<close> digits and some \<open>n\<close> make \<open>s * 10^(n - k)\<close> round to the double \<open>x\<close>, and
  with the \<open>s\<close> nearest to \<open>x\<close> among those (the even one of two), the text is the first
  digit of \<open>s\<close>, a point and the other digits if there are any, then \<^verbatim>\<open>e+\<close> and \<open>n - 1\<close>.
  A double is told from its neighbours by 17 digits at most; \<open>n\<close> is the number of
  digits of the integer part of \<open>x\<close>, or one more when \<open>s * 10^(n - k)\<close> is a power of ten
  above \<open>x\<close>.
\<close>

definition exponent_candidates :: "real \<Rightarrow> nat \<Rightarrow> (nat \<times> nat) list" where
  "exponent_candidates x k =
     (let dc = length (string_of_nat (nat \<lfloor>x\<rfloor>))
      in [(s, n). n \<leftarrow> [dc, dc + 1],
                  s \<leftarrow> [nat \<lfloor>x / 10 ^ (n - k)\<rfloor>, nat \<lfloor>x / 10 ^ (n - k)\<rfloor> + 1],
                  10 ^ (k - 1) \<le> s, s < 10 ^ k,
                  number_of_real (real s * 10 ^ (n - k)) = Finite x])"

definition closest :: "real \<Rightarrow> nat \<Rightarrow> (nat \<times> nat) list \<Rightarrow> nat \<times> nat" where
  "closest x k cs =
     foldl (\<lambda>(s, n) (s', n').
              let d = \<bar>real s * 10 ^ (n - k) - x\<bar>; d' = \<bar>real s' * 10 ^ (n' - k) - x\<bar>
              in if d' < d \<or> (d' = d \<and> even s') then (s', n') else (s, n))
           (hd cs) (tl cs)"

definition exponent_notation :: "real \<Rightarrow> string" where
  "exponent_notation x =
     (case List.find (\<lambda>k. exponent_candidates x k \<noteq> []) [1..<18] of
        None \<Rightarrow> ''''
      | Some k \<Rightarrow>
          (case closest x k (exponent_candidates x k) of
             (s, n) \<Rightarrow>
               (let ds = string_of_nat s
                in (if k = 1 then ds else hd ds # ''.'' @ tl ds) @ ''e+'' @ string_of_nat (n - 1))))"

text \<open>\<^verbatim>\<open>x.toFixed(1)\<close> for any number \<open>x\<close>.\<close>

definition toFixed1 :: "number \<Rightarrow> string" where
  "toFixed1 a =
     (case a of
        NaN \<Rightarrow> ''NaN''
      | PosInf \<Rightarrow> ''Infinity''
      | NegInf \<Rightarrow> ''-Infinity''
      | Finite x \<Rightarrow>
          (if x < 0 then ''-'' else '''')
          @ (if \<bar>x\<bar> \<ge> 10 ^ 21 then exponent_notation \<bar>x\<bar> else fixed_digits \<bar>x\<bar>))"

text \<open>The template \<^verbatim>\<open>`players_${n}`\<close> for a whole number \<open>n\<close>.\<close>

definition players_key :: "nat \<Rightarrow> string" where
  "players_key n = ''players_'' @ string_of_nat n"

section \<open>EquityHeatmap\<close>

definition ranks :: "string list" where
  "ranks = [''A'', ''K'', ''Q'', ''J'', ''T'', ''9'', ''8'', ''7'', ''6'', ''5'', ''4'', ''3'', ''2'']"

text \<open>\<^verbatim>\<open>${ranks[i]}\<close>: an index past the array reads \<^verbatim>\<open>undefined\<close>, printed as such.\<close>

definition rank_at :: "nat \<Rightarrow> string" where
  "rank_at i = (if i < length ranks then ranks ! i else ''undefined'')"

definition getHandName :: "nat \<Rightarrow> nat \<Rightarrow> string" where
  "getHandName row col =
     (if row = col then rank_at row @ rank_at col
      else if row < col then rank_at row @ rank_at col @ ''s''
      else rank_at col @ rank_at row @ ''o'')"

definition getEquity :: "artifact \<Rightarrow> nat \<Rightarrow> string \<Rightarrow> number" where
  "getEquity data playerCount hand =
     (case hands data hand of
        None \<Rightarrow> 0
      | Some handData \<Rightarrow>
          (case handData (players_key playerCount) of
             None \<Rightarrow> 0
           | Some playerData \<Rightarrow> fmul (number_of_real (equity playerData)) (Finite 100)))"

text \<open>The three thresholds chosen by player count: premium, strong, playable.\<close>

definition thresholds :: "nat \<Rightarrow> real \<times> real \<times> real" where
  "thresholds playerCount =
     (if playerCount = 2 then (50, 40, 30)
      else if playerCount = 3 then (40, 30, 22)
      else if playerCount = 4 then (35, 27, 20)
      else if playerCount = 5 then (30, 23, 17)
      else (27, 20, 15))"

definition getColor :: "nat \<Rightarrow> real \<Rightarrow> string" where
  "getColor playerCount e =
     (case thresholds playerCount of
        (premiumThreshold, strongThreshold, playableThreshold) \<Rightarrow>
          if e \<ge> premiumThreshold + 10 then ''bg-emerald-600''
          else if e \<ge> premiumThreshold + 5 then ''bg-emerald-500''
          else if e \<ge> premiumThreshold then ''bg-green-500''
          else if e \<ge> strongThreshold + 5 then ''bg-green-400''
          else if e \<ge> strongThreshold then ''bg-lime-400''
          else if e \<ge> playableThreshold + 5 then ''bg-yellow-400''
          else if e \<ge> playableThreshold then ''bg-yellow-500''
          else if e \<ge> playableThreshold - 5 then ''bg-orange-400''
          else if e \<ge> playableThreshold - 10 then ''bg-orange-500''
          else if e \<ge> playableThreshold - 15 then ''bg-red-400''
          else ''bg-red-500'')"

text \<open>
  \<^verbatim>\<open>getColor\<close> on any number: on a finite one it is the function above; \<^verbatim>\<open>Infinity\<close>
  passes the first test, and \<^verbatim>\<open>-Infinity\<close> and \<^verbatim>\<open>NaN\<close> fail every test.
\<close>

definition getColor_number :: "nat \<Rightarrow> number \<Rightarrow> string" where
  "getColor_number playerCount a =
     (case a of
        Finite e \<Rightarrow> getColor playerCount e
      | PosInf \<Rightarrow> ''bg-emerald-600''
      | NegInf \<Rightarrow> ''bg-red-500''
      | NaN \<Rightarrow> ''bg-red-500'')"

definition getTextColor :: "number \<Rightarrow> string" where
  "getTextColor a = (if fge a 15 then ''text-white'' else ''text-gray-800'')"

text \<open>One \<^verbatim>\<open><td>\<close> of the grid: its class names, its tooltip and its two lines.\<close>

record cell =
  className :: string
  cell_title :: string
  cell_hand :: string
  cell_text :: string

definition heatmap_cell :: "artifact \<Rightarrow> nat \<Rightarrow> nat \<Rightarrow> nat \<Rightarrow> cell" where
  "heatmap_cell data playerCount rowIdx colIdx =
     (let hand = getHandName rowIdx colIdx;
          e = getEquity data playerCount hand
      in \<lparr> className = ''border border-gray-300 p-2 text-center '' @ getColor_number playerCount e
                         @ '' '' @ getTextColor e,
           cell_title = hand @ '': '' @ toFixed1 e @ ''% equity'',
           cell_hand = hand,
           cell_text = toFixed1 e @ ''%'' \<rparr>)"

definition heatmap_grid :: "artifact \<Rightarrow> nat \<Rightarrow> cell list list" where
  "heatmap_grid data playerCount =
     map (\<lambda>rowIdx. map (\<lambda>colIdx. heatmap_cell data playerCount rowIdx colIdx)
                       [0..<length ranks])
         [0..<length ranks]"

text \<open>
  The state \<^verbatim>\<open>playerCount\<close>: it starts at 6, and the only writes are the five buttons,
  each calling \<^verbatim>\<open>setPlayerCount(count)\<close> with its own count.
\<close>

definition playerCount_init :: nat where
  "playerCount_init = 6"

definition button_counts :: "nat list" where
  "button_counts = [2, 3, 4, 5, 6]"

inductive playerCount_reachable :: "nat \<Rightarrow> bool" where
  initial: "playerCount_reachable playerCount_init"
| click: "playerCount_reachable playerCount \<Longrightarrow> count \<in> set button_counts
            \<Longrightarrow> playerCount_reachable count"

section \<open>EquityTrends\<close>

definition handCategories :: "(string \<times> string list) list" where
  "handCategories =
     [(''Premium Pairs'', [''AA'', ''KK'', ''QQ'']),
      (''High Cards'', [''AKs'', ''AQs'', ''AJs'', ''KQs'']),
      (''Mid Pairs'', [''JJ'', ''TT'', ''99'', ''88'']),
      (''Suited Connectors'', [''JTs'', ''T9s'', ''98s'', ''87s''])]"

text \<open>
  The body of \<^verbatim>\<open>hands.forEach\<close>: the running \<^verbatim>\<open>sum\<close> (here \<open>sm\<close>) and \<^verbatim>\<open>count\<close>
  change only when both the hand and its entry under the key are there.
\<close>

definition accumulate :: "artifact \<Rightarrow> string \<Rightarrow> number \<times> nat \<Rightarrow> string \<Rightarrow> number \<times> nat" where
  "accumulate data key acc hand =
     (case acc of (sm, count) \<Rightarrow>
        (case hands data hand of
           None \<Rightarrow> (sm, count)
         | Some handData \<Rightarrow>
             (case handData key of
                None \<Rightarrow> (sm, count)
              | Some playerData \<Rightarrow>
                  (fadd sm (fmul (number_of_real (equity playerData)) (Finite 100)), count + 1))))"

text \<open>A chart value is the string \<^verbatim>\<open>toFixed\<close> returns, or the number 0.\<close>

datatype point_value = Text string | Number real

record point =
  players :: nat
  series :: "(string \<times> point_value) list"

text \<open>
  The values of \<^verbatim>\<open>chartData\<close> and \<^verbatim>\<open>categoryAverages\<close> as functions of the artifact; the
  render that computes them object by object follows below.
\<close>

definition chartData :: "artifact \<Rightarrow> point list" where
  "chartData data =
     map (\<lambda>n. \<lparr> players = n,
                 series =
                   map (\<lambda>(category, hs).
                          (case foldl (accumulate data (players_key n)) (0, 0) hs of
                             (sm, count) \<Rightarrow>
                               (category,
                                if count > 0 then Text (toFixed1 (fdiv_count sm count))
                                else Number 0)))
                       handCategories \<rparr>)
         [2, 3, 4, 5, 6]"

record category_average =
  category :: string
  avgEquity :: number

definition categoryAverages :: "artifact \<Rightarrow> category_average list" where
  "categoryAverages data =
     map (\<lambda>(c, hs).
            (case foldl (accumulate data ''players_6'') (0, 0) hs of
               (sm, count) \<Rightarrow>
                 \<lparr> category = c, avgEquity = (if count > 0 then fdiv_count sm count else 0) \<rparr>))
         handCategories"

text \<open>
  \<^verbatim>\<open>Array.prototype.sort\<close> with the comparator \<^verbatim>\<open>(a, b) => b.avgEquity - a.avgEquity\<close>.
  The sort is stable: of two elements it moves the later one to the front only when the
  comparator, called on the earlier and the later, is positive; a comparator value
  \<^verbatim>\<open>NaN\<close> counts as zero. (With \<^verbatim>\<open>NaN\<close> or infinite averages the comparator is not
  consistent, and the language leaves the order to the implementation; the order here is
  one of those it allows.)
\<close>

definition comparator :: "category_average \<Rightarrow> category_average \<Rightarrow> number" where
  "comparator a b = fsub (avgEquity b) (avgEquity a)"

fun insert_sorted :: "category_average \<Rightarrow> category_average list \<Rightarrow> category_average list" where
  "insert_sorted x [] = [x]"
| "insert_sorted x (y # ys) =
     (if positive (comparator x y) then y # insert_sorted x ys else x # y # ys)"

definition sort_descending :: "category_average list \<Rightarrow> category_average list" where
  "sort_descending xs = foldr insert_sorted xs []"

text \<open>
  The objects a render of a component can reach live in a heap, and a value of object
  type is a reference into it. An object has properties, in the order of their creation;
  an array has its elements besides. The value of a property is a number, a string, or,
  for the property \<^verbatim>\<open>hands\<close> of an artifact, the dictionary of the hands. An allocation
  takes the next free address.
\<close>

datatype val = HandsVal "string \<rightharpoonup> hand_entry" | Str string | Num number

datatype obj =
  Object "(string \<times> val) list"
| ArrayObj "category_average list" "(string \<times> val) list"

abbreviation ArtifactObj :: "artifact \<Rightarrow> obj" where
  "ArtifactObj data \<equiv> Object [(''hands'', HandsVal (hands data))]"

text \<open>
  The object a chart point is once the render has filled it: the property \<^verbatim>\<open>players\<close>,
  then one property for each category.
\<close>

fun val_of :: "point_value \<Rightarrow> val" where
  "val_of (Text s) = Str s"
| "val_of (Number x) = Num (Finite x)"

definition point_object :: "point \<Rightarrow> obj" where
  "point_object p =
     Object ((''players'', Num (Finite (real (players p))))
             # map (\<lambda>(c, v). (c, val_of v)) (series p))"

type_synonym heap = "obj list"

type_synonym ref = nat

fun properties :: "obj \<Rightarrow> (string \<times> val) list" where
  "properties (Object ps) = ps"
| "properties (ArrayObj xs ps) = ps"

text \<open>
  \<^verbatim>\<open>data.hands\<close>, read through the reference \<^verbatim>\<open>data\<close>. On an object with no such property
  it is \<^verbatim>\<open>undefined\<close>, and indexing it by a hand label throws. A string or a number in
  its place gives no entry for any hand label (a string gives one character for the
  label \<open>22\<close> at most, and a character has no table-size entry), so every hand reads
  as missing then.
\<close>

definition read_data :: "heap \<Rightarrow> ref \<Rightarrow> js_error + artifact" where
  "read_data h r =
     (if r < length h
      then (case map_of (properties (h ! r)) ''hands'' of
              None \<Rightarrow> Inl TypeError
            | Some (HandsVal m) \<Rightarrow> Inr \<lparr> hands = m \<rparr>
            | Some (Str s) \<Rightarrow> Inr \<lparr> hands = Map.empty \<rparr>
            | Some (Num x) \<Rightarrow> Inr \<lparr> hands = Map.empty \<rparr>)
      else Inl TypeError)"

text \<open>
  The assignment \<^verbatim>\<open>object[key] = v\<close>, for a key that is no array index: it replaces the
  value of the property where the object has it, and adds the property at the end
  otherwise. It works on whatever object the reference names.
\<close>

fun put :: "(string \<times> val) list \<Rightarrow> string \<Rightarrow> val \<Rightarrow> (string \<times> val) list" where
  "put [] key v = [(key, v)]"
| "put ((k, w) # ps) key v = (if k = key then (k, v) # ps else (k, w) # put ps key v)"

fun put_property :: "obj \<Rightarrow> string \<Rightarrow> val \<Rightarrow> obj" where
  "put_property (Object ps) key v = Object (put ps key v)"
| "put_property (ArrayObj xs ps) key v = ArrayObj xs (put ps key v)"

text \<open>
  A step of a render takes the heap to the heap after it and a result, or the exception
  that ends the render.
\<close>

type_synonym 'a render = "heap \<Rightarrow> heap \<times> (js_error + 'a)"

definition result :: "'a \<Rightarrow> 'a render" where
  "result x h = (h, Inr x)"

definition andThen :: "'a render \<Rightarrow> ('a \<Rightarrow> 'b render) \<Rightarrow> 'b render" where
  "andThen m f h = (case m h of (h', Inl e) \<Rightarrow> (h', Inl e) | (h', Inr x) \<Rightarrow> f x h')"

definition new_object :: "obj \<Rightarrow> ref render" where
  "new_object x h = (h @ [x], Inr (length h))"

definition get_data :: "ref \<Rightarrow> artifact render" where
  "get_data r h = (h, read_data h r)"

definition set_property :: "ref \<Rightarrow> string \<Rightarrow> val \<Rightarrow> unit render" where
  "set_property r key v h =
     (if r < length h then (h[r := put_property (h ! r) key v], Inr ()) else (h, Inl TypeError))"

text \<open>
  \<^verbatim>\<open>array.sort(comparator)\<close> reorders the array behind the reference in place; an object
  that is no array has no method \<^verbatim>\<open>sort\<close>. \<^verbatim>\<open>array.map(item => item.category)\<close> reads the
  elements.
\<close>

definition Array_sort :: "ref \<Rightarrow> unit render" where
  "Array_sort r h =
     (if r < length h
      then (case h ! r of
              ArrayObj xs ps \<Rightarrow> (h[r := ArrayObj (sort_descending xs) ps], Inr ())
            | Object ps \<Rightarrow> (h, Inl TypeError))
      else (h, Inl TypeError))"

definition Array_categories :: "ref \<Rightarrow> string list render" where
  "Array_categories r h =
     (if r < length h
      then (case h ! r of
              ArrayObj xs ps \<Rightarrow> (h, Inr (map category xs))
            | Object ps \<Rightarrow> (h, Inl TypeError))
      else (h, Inl TypeError))"

text \<open>
  \<^verbatim>\<open>hands.forEach\<close> with its reads of \<^verbatim>\<open>data.hands[hand]\<close>, one hand after the other.
\<close>

fun hands_forEach :: "ref \<Rightarrow> string \<Rightarrow> number \<times> nat \<Rightarrow> string list \<Rightarrow> (number \<times> nat) render" where
  "hands_forEach data_ref key acc [] = result acc"
| "hands_forEach data_ref key acc (hand # rest) =
     andThen (get_data data_ref)
       (\<lambda>data. hands_forEach data_ref key (accumulate data key acc hand) rest)"

text \<open>
  \<^verbatim>\<open>Object.entries(handCategories).forEach\<close> in the callback of \<^verbatim>\<open>chartData\<close>: each
  category ends with the assignment \<^verbatim>\<open>point[category] = ...\<close>.
\<close>

fun categories_forEach :: "ref \<Rightarrow> ref \<Rightarrow> nat \<Rightarrow> (string \<times> string list) list \<Rightarrow> unit render" where
  "categories_forEach data_ref point_ref n [] = result ()"
| "categories_forEach data_ref point_ref n ((c, hs) # rest) =
     andThen (hands_forEach data_ref (players_key n) (0, 0) hs)
       (\<lambda>(sm, count).
          andThen (set_property point_ref c
                     (if count > 0 then Str (toFixed1 (fdiv_count sm count)) else Num 0))
            (\<lambda>_. categories_forEach data_ref point_ref n rest))"

text \<open>
  \<^verbatim>\<open>[2, 3, 4, 5, 6].map\<close>: each call allocates \<^verbatim>\<open>point\<close> as \<^verbatim>\<open>{ players }\<close>, fills it and
  returns it.
\<close>

fun chartData_map :: "ref \<Rightarrow> nat list \<Rightarrow> (ref list) render" where
  "chartData_map data_ref [] = result []"
| "chartData_map data_ref (n # rest) =
     andThen (new_object (Object [(''players'', Num (Finite (real n)))]))
       (\<lambda>point_ref.
          andThen (categories_forEach data_ref point_ref n handCategories)
            (\<lambda>_. andThen (chartData_map data_ref rest) (\<lambda>points. result (point_ref # points))))"

text \<open>\<^verbatim>\<open>Object.entries(handCategories).map\<close> for \<^verbatim>\<open>categoryAverages\<close>.\<close>

fun categoryAverages_map :: "ref \<Rightarrow> (string \<times> string list) list \<Rightarrow> (category_average list) render" where
  "categoryAverages_map data_ref [] = result []"
| "categoryAverages_map data_ref ((c, hs) # rest) =
     andThen (hands_forEach data_ref ''players_6'' (0, 0) hs)
       (\<lambda>(sm, count).
          andThen (categoryAverages_map data_ref rest)
            (\<lambda>avgs. result (\<lparr> category = c,
                               avgEquity = (if count > 0 then fdiv_count sm count else 0) \<rparr> # avgs)))"

record trends_view =
  chart :: "ref list"
  chart_lines :: "string list"

text \<open>
  A render of \<^verbatim>\<open>EquityTrends\<close>, from the reference \<^verbatim>\<open>data\<close> and the heap: the heap after
  it, and the references of the chart points with the lines in the order of
  \<^verbatim>\<open>sortedCategories\<close>, or the exception.
\<close>

definition EquityTrends :: "heap \<Rightarrow> ref \<Rightarrow> heap \<times> (js_error + trends_view)" where
  "EquityTrends h data_ref =
     andThen (chartData_map data_ref [2, 3, 4, 5, 6])
       (\<lambda>points.
          andThen (categoryAverages_map data_ref handCategories)
            (\<lambda>avgs.
               andThen (new_object (ArrayObj avgs []))
                 (\<lambda>array.
                    andThen (Array_sort array)
                      (\<lambda>_. andThen (Array_categories array)
                              (\<lambda>sortedCategories.
                                 result \<lparr> chart = points, chart_lines = sortedCategories \<rparr>)))))
       h"

definition EquityHeatmap :: "heap \<Rightarrow> ref \<Rightarrow> nat \<Rightarrow> heap \<times> (js_error + cell list list)" where
  "EquityHeatmap h data_ref playerCount =
     andThen (get_data data_ref) (\<lambda>data. result (heatmap_grid data playerCount)) h"

section \<open>KeyInsights\<close>

text \<open>
  \<^verbatim>\<open>obj[key]\<close> and \<^verbatim>\<open>obj.equity * 100\<close> where \<^verbatim>\<open>obj\<close> may be \<^verbatim>\<open>undefined\<close>: reading a
  property of \<^verbatim>\<open>undefined\<close> throws a TypeError.
\<close>

definition index :: "hand_entry option \<Rightarrow> string \<Rightarrow> js_error + player_entry option" where
  "index obj key = (case obj of None \<Rightarrow> Inl TypeError | Some handData \<Rightarrow> Inr (handData key))"

definition equity100 :: "player_entry option \<Rightarrow> js_error + number" where
  "equity100 obj =
     (case obj of
        None \<Rightarrow> Inl TypeError
      | Some playerData \<Rightarrow> Inr (fmul (number_of_real (equity playerData)) (Finite 100)))"

record key_figures =
  aa_hu :: number
  aa_6max :: number
  aa_drop :: number
  aks_equity :: number
  ako_equity :: number
  suited_bonus :: number
  kk_hu :: number
  kk_6max :: number
  jj_equity :: number
  tt_equity :: number
  aks_hu_equity :: number
  aks_6max_equity :: number
  a2s_equity :: number
  a2o_equity :: number
  x22_hu :: number
  x22_6max :: number
  qq_equity :: number
  ajo_equity :: number
  kqs_equity :: number
  x77_equity :: number
  ak_equity :: number
  jts_equity :: number
  aqo_equity :: number

text \<open>The reads at the head of the component, in the order of the source.\<close>

definition figures :: "artifact \<Rightarrow> js_error + key_figures" where
  "figures data =
     (let aaData = hands data ''AA'' in
      thenE (thenE (index aaData ''players_2'') equity100) (\<lambda>v_aa_hu.
      thenE (thenE (index aaData ''players_6'') equity100) (\<lambda>v_aa_6max.
      thenE (index (hands data ''AKs'') ''players_6'') (\<lambda>aksData.
      thenE (index (hands data ''AKo'') ''players_6'') (\<lambda>akoData.
      thenE (equity100 aksData) (\<lambda>v_aks_equity.
      thenE (equity100 akoData) (\<lambda>v_ako_equity.
      let kkData = hands data ''KK'' in
      thenE (thenE (index kkData ''players_2'') equity100) (\<lambda>v_kk_hu.
      thenE (thenE (index kkData ''players_6'') equity100) (\<lambda>v_kk_6max.
      thenE (index (hands data ''JJ'') ''players_6'') (\<lambda>jjData.
      thenE (index (hands data ''TT'') ''players_6'') (\<lambda>ttData.
      thenE (equity100 jjData) (\<lambda>v_jj_equity.
      thenE (equity100 ttData) (\<lambda>v_tt_equity.
      thenE (index (hands data ''AKs'') ''players_2'') (\<lambda>aksData_hu.
      thenE (index (hands data ''AKs'') ''players_6'') (\<lambda>aksData_6max.
      thenE (equity100 aksData_hu) (\<lambda>v_aks_hu_equity.
      thenE (equity100 aksData_6max) (\<lambda>v_aks_6max_equity.
      thenE (index (hands data ''A2s'') ''players_6'') (\<lambda>a2sData.
      thenE (index (hands data ''A2o'') ''players_6'') (\<lambda>a2oData.
      thenE (equity100 a2sData) (\<lambda>v_a2s_equity.
      thenE (equity100 a2oData) (\<lambda>v_a2o_equity.
      thenE (index (hands data ''22'') ''players_2'') (\<lambda>x22Data_hu.
      thenE (index (hands data ''22'') ''players_6'') (\<lambda>x22Data_6max.
      thenE (equity100 x22Data_hu) (\<lambda>v_22_hu.
      thenE (equity100 x22Data_6max) (\<lambda>v_22_6max.
      thenE (index (hands data ''QQ'') ''players_6'') (\<lambda>qqData.
      thenE (equity100 qqData) (\<lambda>v_qq_equity.
      thenE (index (hands data ''AJo'') ''players_6'') (\<lambda>ajo_Data.
      thenE (index (hands data ''KQs'') ''players_6'') (\<lambda>kqsData.
      thenE (equity100 ajo_Data) (\<lambda>v_ajo_equity.
      thenE (equity100 kqsData) (\<lambda>v_kqs_equity.
      thenE (index (hands data ''77'') ''players_6'') (\<lambda>x77Data.
      thenE (index (hands data ''AKo'') ''players_6'') (\<lambda>akData.
      thenE (equity100 x77Data) (\<lambda>v_77_equity.
      thenE (equity100 akData) (\<lambda>v_ak_equity.
      thenE (index (hands data ''JTs'') ''players_6'') (\<lambda>jtsData.
      thenE (index (hands data ''AQo'') ''players_6'') (\<lambda>aqoData.
      thenE (equity100 jtsData) (\<lambda>v_jts_equity.
      thenE (equity100 aqoData) (\<lambda>v_aqo_equity.
      Inr \<lparr> aa_hu = v_aa_hu, aa_6max = v_aa_6max, aa_drop = fsub v_aa_hu v_aa_6max,
            aks_equity = v_aks_equity, ako_equity = v_ako_equity,
            suited_bonus = fsub v_aks_equity v_ako_equity,
            kk_hu = v_kk_hu, kk_6max = v_kk_6max,
            jj_equity = v_jj_equity, tt_equity = v_tt_equity,
            aks_hu_equity = v_aks_hu_equity, aks_6max_equity = v_aks_6max_equity,
            a2s_equity = v_a2s_equity, a2o_equity = v_a2o_equity,
            x22_hu = v_22_hu, x22_6max = v_22_6max,
            qq_equity = v_qq_equity,
            ajo_equity = v_ajo_equity, kqs_equity = v_kqs_equity,
            x77_equity = v_77_equity, ak_equity = v_ak_equity,
            jts_equity = v_jts_equity, aqo_equity = v_aqo_equity \<rparr>
      )))))))))))))))))))))))))))))))))))))))"

text \<open>
  A card of the carousel. The \<^verbatim>\<open>visual\<close> is either two figures with their captions
  around a separator, or one large figure.
\<close>

datatype separator = Arrow | Vs

datatype visual = Compare "string \<times> string" separator "string \<times> string" | Figure string

record insight =
  title :: string
  visual :: visual
  insight_text :: string
  strategy :: string

definition insights :: "key_figures \<Rightarrow> insight list" where
  "insights k =
     [\<lparr> title = ''Premium Pairs Lose Value Multi-Way'',
        visual = Compare (toFixed1 (aa_hu k) @ ''%'', ''Heads-up'') Arrow
                         (toFixed1 (aa_6max k) @ ''%'', ''6-max''),
        insight_text = ''AA equity drops '' @ toFixed1 (aa_drop k) @ ''% with more opponents'',
        strategy = ''Raise pre-flop to thin the field'' \<rparr>,
      \<lparr> title = ''Suited Cards Add Value'',
        visual = Compare (toFixed1 (aks_equity k) @ ''%'', ''AKs'') Vs
                         (toFixed1 (ako_equity k) @ ''%'', ''AKo''),
        insight_text = ''Suited gives +'' @ toFixed1 (suited_bonus k) @ ''% equity at 6-max'',
        strategy = ''Suited matters, but high card ranks matter more'' \<rparr>,
      \<lparr> title = ''Position is Power'',
        visual = Figure ''~5%'',
        insight_text = ''Equity advantage from late position'',
        strategy = ''Play 40% from button, 15% from early'' \<rparr>,
      \<lparr> title = ''Small Pairs Need Deep Stacks'',
        visual = Figure ''15:1'',
        insight_text = ''Minimum implied odds to profitably set mine'',
        strategy = ''Fold 22-66 to raises without deep stacks'' \<rparr>,
      \<lparr> title = ''KK Still Dominates Most Hands'',
        visual = Compare (toFixed1 (kk_6max k) @ ''%'', ''6-max'') Vs
                         (toFixed1 (kk_hu k) @ ''%'', ''Heads-up''),
        insight_text = ''KK has '' @ toFixed1 (kk_6max k) @ ''% equity even at 6-max'',
        strategy = ''Kings are still premium - play them aggressively'' \<rparr>,
      \<lparr> title = ''AK Suffers More Than Pairs'',
        visual = Compare (toFixed1 (aks_hu_equity k) @ ''%'', ''Heads-up'') Arrow
                         (toFixed1 (aks_6max_equity k) @ ''%'', ''6-max''),
        insight_text = ''AKs drops '' @ toFixed1 (fsub (aks_hu_equity k) (aks_6max_equity k))
                         @ ''% from HU to 6-max'',
        strategy = ''Unpaired hands lose value faster than pocket pairs'' \<rparr>,
      \<lparr> title = ''Mid Pairs Competitive with Big Cards'',
        visual = Compare (toFixed1 (x77_equity k) @ ''%'', ''77'') Vs
                         (toFixed1 (ak_equity k) @ ''%'', ''AKo''),
        insight_text = ''77 has '' @ toFixed1 (x77_equity k) @ ''% equity vs AKo's ''
                         @ toFixed1 (ak_equity k) @ ''% at 6-max'',
        strategy = ''Pocket pairs hold value better than unpaired hands multiway'' \<rparr>,
      \<lparr> title = ''Suited Connectors vs Offsuit Broadway'',
        visual = Compare (toFixed1 (jts_equity k) @ ''%'', ''JTs'') Vs
                         (toFixed1 (aqo_equity k) @ ''%'', ''AQo''),
        insight_text = ''JTs and AQo have nearly identical equity at 6-max'',
        strategy = ''Connected cards have more playability than high cards'' \<rparr>,
      \<lparr> title = ''Drawing Hands Improve Multiway'',
        visual = Compare (toFixed1 (jts_equity k) @ ''%'', ''JTs 6-max'') Vs
                         (toFixed1 (aqo_equity k) @ ''%'', ''AQo 6-max''),
        insight_text = ''Suited connectors compete with offsuit broadway multiway'',
        strategy = ''Drawing hands have better implied odds with more players'' \<rparr>]"

text \<open>
  A render of \<^verbatim>\<open>KeyInsights\<close>: the reads, then the array of cards. It has no assignment
  to an object.
\<close>

definition evaluate :: "js_error + 'a \<Rightarrow> 'a render" where
  "evaluate v h = (h, v)"

definition KeyInsights :: "heap \<Rightarrow> ref \<Rightarrow> heap \<times> (js_error + insight list)" where
  "KeyInsights h data_ref =
     andThen (get_data data_ref)
       (\<lambda>data. evaluate (thenE (figures data) (\<lambda>k. Inr (insights k)))) h"

text \<open>
  The remainder \<^verbatim>\<open>a % b\<close> on whole numbers takes the sign of the dividend. A zero
  divisor (\<^verbatim>\<open>NaN\<close> in the source) is not represented: the array of cards is a literal
  and never empty.
\<close>

definition js_rem :: "int \<Rightarrow> int \<Rightarrow> int" where
  "js_rem a b = sgn a * (\<bar>a\<bar> mod \<bar>b\<bar>)"

definition nextInsight :: "insight list \<Rightarrow> int \<Rightarrow> int" where
  "nextInsight ins prev = js_rem (prev + 1) (int (length ins))"

definition prevInsight :: "insight list \<Rightarrow> int \<Rightarrow> int" where
  "prevInsight ins prev = js_rem (prev - 1 + int (length ins)) (int (length ins))"

section \<open>The Home page\<close>

text \<open>
  What \<^verbatim>\<open>res.json()\<close> can deliver: any JSON value. An object (or array) is kept with its
  property \<^verbatim>\<open>metadata\<close> apart from the rest, for that is the one property the page
  itself reads: \<open>None\<close> where the object has no such property, or has \<^verbatim>\<open>null\<close> there,
  and likewise for \<^verbatim>\<open>num_simulations\<close> in it.
\<close>

record metadata =
  num_simulations :: "real option"

datatype 'o payload = PNull | PBool bool | PNum real | PStr string | PObj 'o "metadata option"

fun truthy :: "'o payload \<Rightarrow> bool" where
  "truthy PNull = False"
| "truthy (PBool b) = b"
| "truthy (PNum x) = (x \<noteq> 0)"
| "truthy (PStr s) = (s \<noteq> [])"
| "truthy (PObj _ _) = True"

record 'o home_state =
  equityData :: "'o payload"
  loading :: bool

definition home_init :: "'o home_state" where
  "home_init = \<lparr> equityData = PNull, loading = True \<rparr>"

text \<open>
  How the promise chain of the effect settles: \<^verbatim>\<open>fetch\<close> rejects, or it resolves and
  \<^verbatim>\<open>res.json()\<close> rejects on an unparseable body, or both resolve with the parsed value.
  The last \<^verbatim>\<open>.then\<close> callback (\<open>on_data\<close>) runs on the parsed value, the \<^verbatim>\<open>.catch\<close>
  callback (\<open>on_error\<close>) on either rejection.
\<close>

datatype 'o fetch_outcome = FetchRejected | JsonRejected | Received "'o payload"

definition on_data :: "'o payload \<Rightarrow> 'o home_state \<Rightarrow> 'o home_state" where
  "on_data d s = (s\<lparr> equityData := d \<rparr>)\<lparr> loading := False \<rparr>"

definition on_error :: "'o home_state \<Rightarrow> 'o home_state" where
  "on_error s = s\<lparr> loading := False \<rparr>"

definition useEffect_settled :: "'o fetch_outcome \<Rightarrow> 'o home_state \<Rightarrow> 'o home_state" where
  "useEffect_settled outcome s =
     (case outcome of
        FetchRejected \<Rightarrow> on_error s
      | JsonRejected \<Rightarrow> on_error s
      | Received d \<Rightarrow> on_data d s)"

text \<open>
  \<^verbatim>\<open>equityData.metadata.num_simulations.toLocaleString()\<close> in the data view: reading a
  property of \<^verbatim>\<open>undefined\<close> or \<^verbatim>\<open>null\<close> throws, and a string, a number or a boolean has
  no property \<^verbatim>\<open>metadata\<close>.
\<close>

definition read_num_simulations :: "'o payload \<Rightarrow> js_error + real" where
  "read_num_simulations d =
     (case d of
        PObj _ (Some m) \<Rightarrow> (case num_simulations m of None \<Rightarrow> Inl TypeError | Some n \<Rightarrow> Inr n)
      | _ \<Rightarrow> Inl TypeError)"

datatype 'o home_view = LoadingView | FailedView | DataView "'o payload"

text \<open>
  A render of the page: the loading view, the failure view, or the data view, which
  hands \<^verbatim>\<open>equityData\<close> to the components and prints the number of simulations; the
  exception when that read throws.
\<close>

definition Home :: "'o home_state \<Rightarrow> js_error + 'o home_view" where
  "Home s =
     (if loading s then Inr LoadingView
      else if \<not> truthy (equityData s) then Inr FailedView
      else thenE (read_num_simulations (equityData s)) (\<lambda>n. Inr (DataView (equityData s))))"

section \<open>The notions of the specification\<close>

text \<open>
  A starting-hand class as the specification describes it: a pair of one rank, or two
  distinct ranks that are suited or offsuit. A rank is its strength, deuce 2 to ace 14;
  in a non-pair the higher rank comes first. The label is the rank pair, then \<open>s\<close> for
  suited and \<open>o\<close> for offsuit.
\<close>

datatype hand_class = Pair nat | Suited nat nat | Offsuit nat nat

definition rank_symbol :: "nat \<Rightarrow> char" where
  "rank_symbol v =
     (if v = 14 then CHR ''A'' else if v = 13 then CHR ''K'' else if v = 12 then CHR ''Q''
      else if v = 11 then CHR ''J'' else if v = 10 then CHR ''T'' else digit_char v)"

fun class_label :: "hand_class \<Rightarrow> string" where
  "class_label (Pair a) = [rank_symbol a, rank_symbol a]"
| "class_label (Suited hi lo) = [rank_symbol hi, rank_symbol lo, CHR ''s'']"
| "class_label (Offsuit hi lo) = [rank_symbol hi, rank_symbol lo, CHR ''o'']"

fun valid_class :: "hand_class \<Rightarrow> bool" where
  "valid_class (Pair a) = (2 \<le> a \<and> a \<le> 14)"
| "valid_class (Suited hi lo) = (2 \<le> lo \<and> lo < hi \<and> hi \<le> 14)"
| "valid_class (Offsuit hi lo) = (2 \<le> lo \<and> lo < hi \<and> hi \<le> 14)"

definition pair_classes :: "hand_class list" where
  "pair_classes = [Pair a. a \<leftarrow> [2..<15]]"

definition suited_classes :: "hand_class list" where
  "suited_classes = [Suited hi lo. hi \<leftarrow> [2..<15], lo \<leftarrow> [2..<hi]]"

definition offsuit_classes :: "hand_class list" where
  "offsuit_classes = [Offsuit hi lo. hi \<leftarrow> [2..<15], lo \<leftarrow> [2..<hi]]"

definition canonical_classes :: "hand_class list" where
  "canonical_classes = pair_classes @ suited_classes @ offsuit_classes"

text \<open>
  The class a grid cell stands for: row and column \<open>i\<close> carry the rank of strength
  \<open>14 - i\<close> (ace first); the diagonal holds the pairs, the cells above it the suited
  classes and the cells below it the offsuit ones.
\<close>

definition cell_class :: "nat \<Rightarrow> nat \<Rightarrow> hand_class" where
  "cell_class row col =
     (if row = col then Pair (14 - row)
      else if row < col then Suited (14 - row) (14 - col)
      else Offsuit (14 - col) (14 - row))"

definition grid_cells :: "(nat \<times> nat) list" where
  "grid_cells = List.product [0..<13] [0..<13]"

text \<open>
  The ten numbers \<^verbatim>\<open>getColor\<close> compares the equity with, in the order of its branches,
  and its eleven classes from the lowest band to the highest.
\<close>

definition cutoffs :: "nat \<Rightarrow> real list" where
  "cutoffs playerCount =
     (case thresholds playerCount of
        (premiumThreshold, strongThreshold, playableThreshold) \<Rightarrow>
          [premiumThreshold + 10, premiumThreshold + 5, premiumThreshold,
           strongThreshold + 5, strongThreshold,
           playableThreshold + 5, playableThreshold,
           playableThreshold - 5, playableThreshold - 10, playableThreshold - 15])"

definition color_bands :: "string list" where
  "color_bands =
     [''bg-red-500'', ''bg-red-400'', ''bg-orange-500'', ''bg-orange-400'', ''bg-yellow-500'',
      ''bg-yellow-400'', ''bg-lime-400'', ''bg-green-400'', ''bg-green-500'',
      ''bg-emerald-500'', ''bg-emerald-600'']"

definition band_index :: "string \<Rightarrow> nat" where
  "band_index c = length (takeWhile (\<lambda>b. b \<noteq> c) color_bands)"

text \<open>
  The table-size key the specification names for each of the five table sizes; no key
  for any other number.
\<close>

definition table_key :: "nat \<Rightarrow> string" where
  "table_key n =
     (if n = 2 then ''players_2'' else if n = 3 then ''players_3''
      else if n = 4 then ''players_4'' else if n = 5 then ''players_5''
      else if n = 6 then ''players_6'' else [])"

text \<open>
  Reading a decimal numeral with one digit after the point as a number of tenths: the
  integer part has no sign and no leading zero (other than the numeral \<open>0\<close> itself).
  \<open>read_percent\<close> reads such a numeral followed by the percent sign.
\<close>

definition digit_value :: "char \<Rightarrow> nat option" where
  "digit_value =
     map_of [(CHR ''0'', 0), (CHR ''1'', 1), (CHR ''2'', 2), (CHR ''3'', 3), (CHR ''4'', 4),
             (CHR ''5'', 5), (CHR ''6'', 6), (CHR ''7'', 7), (CHR ''8'', 8), (CHR ''9'', 9)]"

fun read_digits :: "nat \<Rightarrow> string \<Rightarrow> nat option" where
  "read_digits acc [] = Some acc"
| "read_digits acc (c # cs) =
     (case digit_value c of None \<Rightarrow> None | Some d \<Rightarrow> read_digits (10 * acc + d) cs)"

definition read_nat :: "string \<Rightarrow> nat option" where
  "read_nat s =
     (if s = [] \<or> (hd s = CHR ''0'' \<and> tl s \<noteq> []) then None else read_digits 0 s)"

definition read_tenths :: "string \<Rightarrow> nat option" where
  "read_tenths s =
     (case rev s of
        f # p # ri \<Rightarrow>
          (if p = CHR ''.''
           then (case (read_nat (rev ri), digit_value f) of
                   (Some q, Some r) \<Rightarrow> Some (10 * q + r)
                 | _ \<Rightarrow> None)
           else None)
      | _ \<Rightarrow> None)"

definition read_percent :: "string \<Rightarrow> nat option" where
  "read_percent s = (if s \<noteq> [] \<and> last s = CHR ''%'' then read_tenths (butlast s) else None)"

text \<open>The number of tenths nearest to a real that is not negative, the larger on a tie.\<close>

definition nearest_tenths :: "real \<Rightarrow> nat" where
  "nearest_tenths x = nat \<lfloor>x * 10 + 1 / 2\<rfloor>"

text \<open>
  The mean the chart is said to show: over the hands of a category whose entry for the
  table size is there, the mean of equity times 100, to one decimal place; the number 0
  when there is no such hand. \<open>exact_mean\<close> is this mean in the real numbers,
  \<open>double_mean\<close> the same sum and quotient in the arithmetic of the language.
\<close>

definition present_equities :: "artifact \<Rightarrow> string \<Rightarrow> string list \<Rightarrow> real list" where
  "present_equities data key hs =
     List.map_filter
       (\<lambda>h. case hands data h of None \<Rightarrow> None | Some handData \<Rightarrow> map_option equity (handData key))
       hs"

definition exact_mean :: "real list \<Rightarrow> real" where
  "exact_mean es = sum_list (map (\<lambda>x. x * 100) es) / real (length es)"

definition double_sum :: "real list \<Rightarrow> number" where
  "double_sum es = foldl fadd 0 (map (\<lambda>x. fmul (number_of_real x) (Finite 100)) es)"

definition double_mean :: "real list \<Rightarrow> number" where
  "double_mean es = fdiv_count (double_sum es) (length es)"

definition category_mean :: "artifact \<Rightarrow> nat \<Rightarrow> string list \<Rightarrow> point_value" where
  "category_mean data n hs =
     (let es = present_equities data (table_key n) hs
      in if es = [] then Number 0 else Text (toFixed1 (double_mean es)))"

text \<open>The rank a symbol stands for: its place in the ascending row of symbols.\<close>

definition symbol_rank :: "char \<Rightarrow> nat" where
  "symbol_rank ch = length (takeWhile (\<lambda>x. x \<noteq> ch) ''23456789TJQKA'') + 2"

text \<open>An artifact as the specification promises it: every equity lies in \<open>[0, 1]\<close>.\<close>

definition equities_in_unit :: "artifact \<Rightarrow> bool" where
  "equities_in_unit data \<longleftrightarrow>
     (\<forall>handData \<in> ran (hands data). \<forall>playerData \<in> ran handData.
        0 \<le> equity playerData \<and> equity playerData \<le> 1)"

section \<open>A sample artifact\<close>

text \<open>
  A small artifact for concrete evaluation. It holds every entry \<^verbatim>\<open>KeyInsights\<close> reads;
  most other hands and table sizes are missing.
\<close>

definition sample_entries :: "(string \<times> (string \<times> real) list) list" where
  "sample_entries =
     [(''AA'', [(''players_2'', 0.852), (''players_6'', 0.493)]),
      (''KK'', [(''players_2'', 0.824), (''players_6'', 0.431)]),
      (''QQ'', [(''players_6'', 0.379)]),
      (''JJ'', [(''players_6'', 0.335)]),
      (''TT'', [(''players_6'', 0.297)]),
      (''77'', [(''players_6'', 0.218)]),
      (''22'', [(''players_2'', 0.503), (''players_6'', 0.159)]),
      (''AKs'', [(''players_2'', 0.67), (''players_6'', 0.311)]),
      (''AKo'', [(''players_6'', 0.277)]),
      (''AQo'', [(''players_6'', 0.249)]),
      (''AJo'', [(''players_6'', 0.228)]),
      (''A2s'', [(''players_6'', 0.212)]),
      (''A2o'', [(''players_6'', 0.165)]),
      (''KQs'', [(''players_6'', 0.278)]),
      (''JTs'', [(''players_6'', 0.249)])]"

definition sample_artifact :: artifact where
  "sample_artifact =
     \<lparr> hands = map_of (map (\<lambda>(h, es). (h, map_of (map (\<lambda>(k, x). (k, \<lparr> equity = x \<rparr>)) es)))
                           sample_entries) \<rparr>"

definition sample_heap :: heap where
  "sample_heap = [ArtifactObj sample_artifact]"

text \<open>The artifact with no hand at all, as \<^verbatim>\<open>{"hands": {}}\<close>.\<close>

definition empty_artifact :: artifact where
  "empty_artifact = \<lparr> hands = Map.empty \<rparr>"

section \<open>Rounding to a double\<close>

lemma binade_bounds:
  assumes "x \<noteq> 0"
  shows "2 powi binade x \<le> \<bar>x\<bar> \<and> \<bar>x\<bar> < 2 powi (binade x + 1)"
proof (cases "1 \<le> \<bar>x\<bar>")
  case True
  define m where "m = \<lfloor>\<bar>x\<bar>\<rfloor>"
  have m: "0 < m" using True by (simp add: m_def)
  have b: "binade x = bitlen m - 1" using True by (simp add: binade_def m_def)
  have b1: "1 \<le> bitlen m" using m by (simp add: bitlen_alt_def)
  from bitlen_bounds [OF m] have lo: "2 ^ nat (bitlen m - 1) \<le> m" and hi: "m < 2 ^ nat (bitlen m)"
    by simp_all
  have "2 powi binade x = 2 ^ nat (bitlen m - 1)"
    using b1 by (simp add: b power_int_def)
  also have "\<dots> \<le> real_of_int m" using lo by (metis of_int_le_iff of_int_numeral of_int_power)
  also have "\<dots> \<le> \<bar>x\<bar>" by (simp add: m_def)
  finally have 1: "2 powi binade x \<le> \<bar>x\<bar>" .
  have "m + 1 \<le> 2 ^ nat (bitlen m)" using hi by simp
  then have "real_of_int (m + 1) \<le> 2 ^ nat (bitlen m)"
    by (metis of_int_le_iff of_int_numeral of_int_power)
  moreover have "\<bar>x\<bar> < real_of_int (m + 1)" by (simp add: m_def)
  moreover have "2 powi (binade x + 1) = (2::real) ^ nat (bitlen m)"
    using b1 by (simp add: b power_int_def)
  ultimately have "\<bar>x\<bar> < 2 powi (binade x + 1)" by linarith
  with 1 show ?thesis ..
next
  case False
  with assms have x: "0 < \<bar>x\<bar>" "\<bar>x\<bar> < 1" by simp_all
  define y where "y = 1 / \<bar>x\<bar>"
  define m where "m = \<lceil>y\<rceil>"
  define b where "b = bitlen (m - 1)"
  have y: "1 < y" using x by (simp add: y_def)
  then have m: "0 < m - 1" by (simp add: m_def less_ceiling_iff)
  have bin: "binade x = - b" using False by (simp add: binade_def b_def m_def y_def)
  have b1: "1 \<le> b" using m by (simp add: bitlen_alt_def b_def)
  from bitlen_bounds [OF m] have lo: "2 ^ nat (b - 1) \<le> m - 1" and hi: "m - 1 < 2 ^ nat b"
    by (simp_all add: b_def)
  from hi have "m \<le> 2 ^ nat b" by simp
  then have "real_of_int m \<le> 2 ^ nat b"
    by (metis of_int_le_iff of_int_numeral of_int_power)
  moreover have "y \<le> real_of_int m" by (simp add: m_def)
  ultimately have "y \<le> 2 ^ nat b" by linarith
  then have "1 \<le> \<bar>x\<bar> * 2 ^ nat b"
    using x by (simp add: y_def field_simps)
  then have "1 / 2 ^ nat b \<le> \<bar>x\<bar>"
    by (simp add: field_simps)
  moreover have "2 powi (- b) = 1 / (2::real) ^ nat b"
    using b1 by (simp add: power_int_def field_simps)
  ultimately have 1: "2 powi binade x \<le> \<bar>x\<bar>" by (simp add: bin)
  from lo have "real_of_int (2 ^ nat (b - 1)) \<le> real_of_int (m - 1)"
    by (simp only: of_int_le_iff)
  then have "2 ^ nat (b - 1) \<le> real_of_int m - 1" by simp
  moreover have "real_of_int m - 1 < y" by (simp add: m_def) linarith
  ultimately have "2 ^ nat (b - 1) < y" by linarith
  then have "\<bar>x\<bar> * 2 ^ nat (b - 1) < 1"
    using x by (simp add: y_def field_simps)
  then have "\<bar>x\<bar> < 1 / 2 ^ nat (b - 1)"
    by (simp add: field_simps)
  moreover have "2 powi (- b + 1) = 1 / (2::real) ^ nat (b - 1)"
  proof (cases "b = 1")
    case True
    then show ?thesis by simp
  next
    case False
    with b1 have "- b + 1 < 0" by simp
    then show ?thesis
      using b1 by (simp add: power_int_def field_simps)
  qed
  ultimately have "\<bar>x\<bar> < 2 powi (binade x + 1)" by (simp add: bin)
  with 1 show ?thesis ..
qed

lemma binade_less:
  assumes "x \<noteq> 0" and "\<bar>x\<bar> < 2 powi p"
  shows "binade x < p"
proof (rule ccontr)
  assume "\<not> binade x < p"
  then have "p \<le> binade x" by simp
  then have "(2::real) powi p \<le> 2 powi binade x"
    by (intro power_int_increasing) simp_all
  with binade_bounds [OF assms(1)] assms(2) show False by linarith
qed

lemma round_half_even_error: "\<bar>real_of_int (round_half_even y) - y\<bar> \<le> 1 / 2"
  by (auto simp: round_half_even_def Let_def; linarith)

lemma round_half_even_le: "y \<le> real_of_int m \<Longrightarrow> round_half_even y \<le> m"
  by (auto simp: round_half_even_def Let_def; linarith)

lemma round_half_even_ge: "real_of_int m \<le> y \<Longrightarrow> m \<le> round_half_even y"
proof -
  assume "real_of_int m \<le> y"
  then have "m \<le> \<lfloor>y\<rfloor>" by (simp add: le_floor_iff)
  then show ?thesis by (auto simp: round_half_even_def Let_def)
qed

lemma ulp_pos: "0 < ulp x"
  by (simp add: ulp_def)

lemma round64_error: "\<bar>round64 x - x\<bar> \<le> ulp x / 2"
proof (cases "x = 0")
  case True
  then show ?thesis using ulp_pos [of x] by (simp add: round64_def)
next
  case False
  have "round64 x - x = ulp x * (real_of_int (round_half_even (x / ulp x)) - x / ulp x)"
    using False ulp_pos [of x] by (simp add: round64_def field_simps)
  then have "\<bar>round64 x - x\<bar> = ulp x * \<bar>real_of_int (round_half_even (x / ulp x)) - x / ulp x\<bar>"
    using ulp_pos [of x] by (simp add: abs_mult)
  also have "\<dots> \<le> ulp x * (1 / 2)"
    using ulp_pos [of x] round_half_even_error by (intro mult_left_mono) simp_all
  finally show ?thesis by simp
qed

lemma ulp_le:
  assumes "x \<noteq> 0" and "\<bar>x\<bar> < 2 powi p" and "- 1021 \<le> p"
  shows "ulp x \<le> 2 powi (p - 53)"
proof -
  have "binade x < p" using assms(1,2) by (rule binade_less)
  with assms(3) have "max (binade x) (- 1022) - 52 \<le> p - 53" by simp
  then show ?thesis
    unfolding ulp_def by (intro power_int_increasing) simp_all
qed

lemma round64_close:
  assumes "\<bar>x\<bar> < 2 powi p" and "- 1021 \<le> p"
  shows "\<bar>round64 x - x\<bar> \<le> 2 powi (p - 54)"
proof (cases "x = 0")
  case True
  then show ?thesis by (simp add: round64_def)
next
  case False
  have "\<bar>round64 x - x\<bar> \<le> ulp x / 2" by (rule round64_error)
  also have "\<dots> \<le> 2 powi (p - 53) / 2"
    using ulp_le [OF False assms] by simp
  also have "\<dots> = 2 powi (p - 54)"
    by (simp add: power_int_diff)
  finally show ?thesis .
qed

lemma round64_range:
  assumes "0 \<le> x" and "x \<le> real M" and "x < 2 ^ 53"
  shows "0 \<le> round64 x \<and> round64 x \<le> real M"
proof (cases "x = 0")
  case True
  then show ?thesis by (simp add: round64_def)
next
  case False
  define j where "j = max (binade x) (- 1022) - 52"
  have "\<bar>x\<bar> < 2 powi 53" using assms(1,3) by simp
  with False have "binade x < 53" by (rule binade_less)
  then have j: "j \<le> 0" by (simp add: j_def)
  have u: "ulp x = 1 / 2 ^ nat (- j)"
    using j by (simp add: ulp_def j_def [symmetric] power_int_def field_simps)
  have "x / ulp x \<le> real_of_int (int M * 2 ^ nat (- j))"
    using assms(2) by (simp add: u)
  then have "round_half_even (x / ulp x) \<le> int M * 2 ^ nat (- j)"
    by (rule round_half_even_le)
  then have "real_of_int (round_half_even (x / ulp x)) \<le> real_of_int (int M * 2 ^ nat (- j))"
    by (simp only: of_int_le_iff)
  then have hi: "round64 x \<le> real M"
    using False by (simp add: round64_def u field_simps)
  have "real_of_int 0 \<le> x / ulp x" using assms(1) ulp_pos [of x] by simp
  then have "0 \<le> round_half_even (x / ulp x)" by (rule round_half_even_ge)
  then have "0 \<le> round64 x"
    using False ulp_pos [of x] by (simp add: round64_def)
  with hi show ?thesis by simp
qed

lemma number_of_real_range:
  assumes "0 \<le> x" and "x \<le> real M" and "M < 2 ^ 53"
  shows "number_of_real x = Finite (round64 x) \<and> 0 \<le> round64 x \<and> round64 x \<le> real M"
proof -
  have "real M < 2 ^ 53" using assms(3) by (metis of_nat_less_iff of_nat_numeral of_nat_power)
  with assms(2) have x: "x < 2 ^ 53" by linarith
  from round64_range [OF assms(1,2) x] have r: "0 \<le> round64 x" "round64 x \<le> real M" by simp_all
  with \<open>real M < 2 ^ 53\<close> have "round64 x < 2 ^ 53" by linarith
  moreover have "(2::real) ^ 53 \<le> 2 ^ 1024" by (intro power_increasing) simp_all
  ultimately have "round64 x < 2 ^ 1024" by linarith
  with r show ?thesis by (simp add: number_of_real_def Let_def)
qed

lemma percent_of_unit:
  assumes "0 \<le> e" and "e \<le> 1"
  shows "\<exists>d. fmul (number_of_real e) (Finite 100) = Finite d \<and> 0 \<le> d \<and> d \<le> 100
           \<and> \<bar>d - e * 100\<bar> \<le> 2 powi (- 45)"
proof -
  define a where "a = round64 e"
  have "e \<le> real 1" using assms(2) by simp
  from number_of_real_range [OF assms(1) this] have
    a: "number_of_real e = Finite a" "0 \<le> a" "a \<le> 1"
    by (simp_all add: a_def)
  have "\<bar>e\<bar> < 2 powi 1" using assms by simp
  then have "\<bar>round64 e - e\<bar> \<le> 2 powi (1 - 54)" by (rule round64_close) simp
  then have ae: "\<bar>a - e\<bar> \<le> 2 powi (- 53)" by (simp add: a_def)
  define d where "d = round64 (a * 100)"
  have "0 \<le> a * 100" "a * 100 \<le> real 100" using a(2,3) by simp_all
  from number_of_real_range [OF this] have
    d: "number_of_real (a * 100) = Finite d" "0 \<le> d" "d \<le> 100"
    by (simp_all add: d_def)
  have "\<bar>a * 100\<bar> < 2 powi 7" using a(2,3) by simp
  then have "\<bar>round64 (a * 100) - a * 100\<bar> \<le> 2 powi (7 - 54)" by (rule round64_close) simp
  then have da: "\<bar>d - a * 100\<bar> \<le> 2 powi (- 47)" by (simp add: d_def)
  have m: "\<bar>100 * (a - e)\<bar> = 100 * \<bar>a - e\<bar>" by (subst abs_mult) simp
  have "\<bar>d - e * 100\<bar> = \<bar>(d - a * 100) + 100 * (a - e)\<bar>" by simp
  also have "\<dots> \<le> \<bar>d - a * 100\<bar> + \<bar>100 * (a - e)\<bar>" by (rule abs_triangle_ineq)
  also have "\<dots> = \<bar>d - a * 100\<bar> + 100 * \<bar>a - e\<bar>" by (simp only: m)
  also have "\<dots> \<le> 2 powi (- 47) + 100 * 2 powi (- 53)" using da ae by simp
  also have "\<dots> \<le> 2 powi (- 45)" by (simp add: power_int_minus)
  finally have "\<bar>d - e * 100\<bar> \<le> 2 powi (- 45)" .
  with a(1) d show ?thesis by (auto simp: fmul_def)
qed

section \<open>Reading the digits back\<close>

lemma digit_value_digit_char: "r < 10 \<Longrightarrow> digit_value (digit_char r) = Some r"
proof -
  assume "r < 10"
  then have "r = 0 \<or> r = 1 \<or> r = 2 \<or> r = 3 \<or> r = 4 \<or> r = 5 \<or> r = 6 \<or> r = 7 \<or> r = 8 \<or> r = 9"
    by arith
  then show ?thesis
    by (elim disjE) (simp_all add: digit_value_def digit_char_def)
qed

lemma digit_char_zero: "0 < r \<Longrightarrow> r < 10 \<Longrightarrow> digit_char r \<noteq> CHR ''0''"
proof -
  assume "0 < r" "r < 10"
  then have "r = 1 \<or> r = 2 \<or> r = 3 \<or> r = 4 \<or> r = 5 \<or> r = 6 \<or> r = 7 \<or> r = 8 \<or> r = 9"
    by arith
  then show ?thesis
    by (elim disjE) (simp_all add: digit_char_def)
qed

lemma read_digits_snoc:
  "read_digits acc (cs @ [c]) =
     (case read_digits acc cs of
        None \<Rightarrow> None
      | Some a \<Rightarrow> (case digit_value c of None \<Rightarrow> None | Some d \<Rightarrow> Some (10 * a + d)))"
  by (induction cs arbitrary: acc) (simp_all split: option.split)

lemma read_digits_string_of_nat: "read_digits 0 (string_of_nat n) = Some n"
proof (induction n rule: string_of_nat.induct)
  case (1 n)
  show ?case
  proof (cases "n < 10")
    case True
    then show ?thesis
      by (subst string_of_nat.simps) (simp add: digit_value_digit_char)
  next
    case False
    with 1 have "read_digits 0 (string_of_nat (n div 10)) = Some (n div 10)" by simp
    with False show ?thesis
      by (subst string_of_nat.simps) (simp add: read_digits_snoc digit_value_digit_char)
  qed
qed

lemma string_of_nat_not_Nil: "string_of_nat n \<noteq> []"
  by (subst string_of_nat.simps) simp

lemma string_of_nat_single: "n < 10 \<Longrightarrow> string_of_nat n = [digit_char n]"
  by (subst string_of_nat.simps) simp

lemma hd_string_of_nat: "0 < n \<Longrightarrow> hd (string_of_nat n) \<noteq> CHR ''0''"
proof (induction n rule: string_of_nat.induct)
  case (1 n)
  show ?case
  proof (cases "n < 10")
    case True
    with 1(2) show ?thesis by (simp add: string_of_nat_single digit_char_zero)
  next
    case False
    then have "0 < n div 10" by simp
    with 1(1) False have "hd (string_of_nat (n div 10)) \<noteq> CHR ''0''" by simp
    with False show ?thesis
      by (subst string_of_nat.simps) (simp add: string_of_nat_not_Nil)
  qed
qed

lemma read_nat_string_of_nat: "read_nat (string_of_nat n) = Some n"
proof (cases "n < 10")
  case True
  then show ?thesis
    by (simp add: read_nat_def string_of_nat_single digit_value_digit_char)
next
  case False
  then have "hd (string_of_nat n) \<noteq> CHR ''0''" by (intro hd_string_of_nat) simp
  then show ?thesis
    by (simp add: read_nat_def string_of_nat_not_Nil read_digits_string_of_nat)
qed

lemma fixed_digits_split:
  "fixed_digits x =
     string_of_nat (nearest_tenths x div 10) @ ''.'' @ [digit_char (nearest_tenths x mod 10)]"
proof (cases "nearest_tenths x < 10")
  case True
  then have "string_of_nat (nearest_tenths x div 10) = ''0''"
    by (simp add: string_of_nat_single digit_char_def)
  with True show ?thesis
    by (simp add: fixed_digits_def nearest_tenths_def [symmetric] string_of_nat_single Let_def)
next
  case False
  define q where "q = string_of_nat (nearest_tenths x div 10)"
  have q: "q \<noteq> []" by (simp add: q_def string_of_nat_not_Nil)
  have s: "string_of_nat (nearest_tenths x) = q @ [digit_char (nearest_tenths x mod 10)]"
    using False by (subst string_of_nat.simps) (simp add: q_def)
  have "\<not> length q = 0" using q by simp
  then show ?thesis
    using q unfolding fixed_digits_def nearest_tenths_def [symmetric] Let_def s q_def [symmetric]
    by simp
qed

lemma read_tenths_fixed_digits: "read_tenths (fixed_digits x) = Some (nearest_tenths x)"
  by (simp add: fixed_digits_split read_tenths_def read_nat_string_of_nat digit_value_digit_char)

lemma toFixed1_Finite:
  assumes "0 \<le> d" and "d \<le> 100"
  shows "toFixed1 (Finite d) = fixed_digits d"
proof -
  have "(100::real) < 10 ^ 21" by simp
  with assms have "\<not> (10::real) ^ 21 \<le> \<bar>d\<bar>" by linarith
  with assms(1) show ?thesis by (simp add: toFixed1_def)
qed

lemma read_percent_toFixed1:
  assumes "0 \<le> d" and "d \<le> 100"
  shows "read_percent (toFixed1 (Finite d) @ ''%'') = Some (nearest_tenths d)"
  by (simp add: read_percent_def toFixed1_Finite [OF assms] read_tenths_fixed_digits)

section \<open>Hand labels of the grid\<close>

lemma rank_at_symbol: "i < 13 \<Longrightarrow> rank_at i = [rank_symbol (14 - i)]"
proof -
  assume "i < 13"
  then have "i = 0 \<or> i = 1 \<or> i = 2 \<or> i = 3 \<or> i = 4 \<or> i = 5 \<or> i = 6 \<or> i = 7 \<or> i = 8
      \<or> i = 9 \<or> i = 10 \<or> i = 11 \<or> i = 12"
    by arith
  then show ?thesis
    by (elim disjE) (simp_all add: rank_at_def ranks_def rank_symbol_def digit_char_def)
qed

lemma getHandName_label:
  "row < 13 \<Longrightarrow> col < 13 \<Longrightarrow> getHandName row col = class_label (cell_class row col)"
  by (simp add: getHandName_def cell_class_def rank_at_symbol)

lemma cell_class_valid: "row < 13 \<Longrightarrow> col < 13 \<Longrightarrow> valid_class (cell_class row col)"
  by (auto simp: cell_class_def)

lemma symbol_rank_symbol:
  assumes "2 \<le> a" "a \<le> 14"
  shows "symbol_rank (rank_symbol a) = a \<and> rank_symbol a \<noteq> CHR ''s'' \<and> rank_symbol a \<noteq> CHR ''o''"
proof -
  from assms have "a = 2 \<or> a = 3 \<or> a = 4 \<or> a = 5 \<or> a = 6 \<or> a = 7 \<or> a = 8
      \<or> a = 9 \<or> a = 10 \<or> a = 11 \<or> a = 12 \<or> a = 13 \<or> a = 14"
    by arith
  then show ?thesis
    by (elim disjE) (simp_all add: rank_symbol_def digit_char_def symbol_rank_def)
qed

lemma rank_symbol_inj:
  assumes "2 \<le> a" "a \<le> 14" "2 \<le> b" "b \<le> 14" "rank_symbol a = rank_symbol b"
  shows "a = b"
proof -
  have "a = symbol_rank (rank_symbol a)"
    using symbol_rank_symbol [OF assms(1,2)] by simp
  also have "\<dots> = symbol_rank (rank_symbol b)"
    by (simp only: assms(5))
  also have "\<dots> = b"
    using symbol_rank_symbol [OF assms(3,4)] by simp
  finally show ?thesis .
qed

lemma class_label_inj:
  assumes "valid_class k" "valid_class k'" "class_label k = class_label k'"
  shows "k = k'"
proof (cases k)
  case (Pair a)
  with assms show ?thesis
    by (cases k') (auto intro: rank_symbol_inj)
next
  case k: (Suited hi lo)
  with assms(1) have r: "2 \<le> hi" "hi \<le> 14" "2 \<le> lo" "lo \<le> 14" by auto
  show ?thesis
  proof (cases k')
    case (Suited hi' lo')
    with assms(2) have r': "2 \<le> hi'" "hi' \<le> 14" "2 \<le> lo'" "lo' \<le> 14" by auto
    from assms(3) k Suited have "rank_symbol hi = rank_symbol hi'" "rank_symbol lo = rank_symbol lo'"
      by auto
    with r r' have "hi = hi'" "lo = lo'" by (auto intro: rank_symbol_inj)
    with k Suited show ?thesis by simp
  qed (use assms(3) k in auto)
next
  case k: (Offsuit hi lo)
  with assms(1) have r: "2 \<le> hi" "hi \<le> 14" "2 \<le> lo" "lo \<le> 14" by auto
  show ?thesis
  proof (cases k')
    case (Offsuit hi' lo')
    with assms(2) have r': "2 \<le> hi'" "hi' \<le> 14" "2 \<le> lo'" "lo' \<le> 14" by auto
    from assms(3) k Offsuit have "rank_symbol hi = rank_symbol hi'" "rank_symbol lo = rank_symbol lo'"
      by auto
    with r r' have "hi = hi'" "lo = lo'" by (auto intro: rank_symbol_inj)
    with k Offsuit show ?thesis by simp
  qed (use assms(3) k in auto)
qed

lemma mem_canonical: "k \<in> set canonical_classes \<longleftrightarrow> valid_class k"
  by (cases k)
     (auto simp: canonical_classes_def pair_classes_def suited_classes_def offsuit_classes_def
        image_iff simp del: upt_rec_numeral)

lemma cell_class_inj:
  "row < 13 \<Longrightarrow> col < 13 \<Longrightarrow> row' < 13 \<Longrightarrow> col' < 13 \<Longrightarrow>
   cell_class row col = cell_class row' col' \<Longrightarrow> row = row' \<and> col = col'"
  by (auto simp: cell_class_def split: if_splits)

lemma getHandName_inj:
  assumes "row < 13" "col < 13" "row' < 13" "col' < 13"
    and "getHandName row col = getHandName row' col'"
  shows "row = row' \<and> col = col'"
proof -
  from assms have "class_label (cell_class row col) = class_label (cell_class row' col')"
    by (simp add: getHandName_label)
  then have "cell_class row col = cell_class row' col'"
    using assms(1-4) by (intro class_label_inj cell_class_valid)
  with assms(1-4) show ?thesis by (intro cell_class_inj)
qed

lemma cell_class_surj:
  assumes "valid_class k"
  shows "\<exists>row col. row < 13 \<and> col < 13 \<and> cell_class row col = k"
proof (cases k)
  case (Pair a)
  with assms have "14 - a < 13 \<and> cell_class (14 - a) (14 - a) = k"
    by (auto simp: cell_class_def)
  then show ?thesis by blast
next
  case (Suited hi lo)
  with assms have "14 - hi < 13 \<and> 14 - lo < 13 \<and> cell_class (14 - hi) (14 - lo) = k"
    by (auto simp: cell_class_def)
  then show ?thesis by blast
next
  case (Offsuit hi lo)
  with assms have "14 - lo < 13 \<and> 14 - hi < 13 \<and> cell_class (14 - lo) (14 - hi) = k"
    by (auto simp: cell_class_def)
  then show ?thesis by blast
qed

lemma length_classes:
  "length pair_classes = 13" "length suited_classes = 78" "length offsuit_classes = 78"
  by (simp_all add: pair_classes_def suited_classes_def offsuit_classes_def)

text \<open>
  Claim C3. For row and column indices from 0 to 12, \<^verbatim>\<open>getHandName\<close> gives the standard
  label of the cell's class, the higher rank first: the rank pair with no suffix on the
  diagonal, the two ranks in descending order and \<open>s\<close> where the row index is below the
  column index, the two ranks in descending order and \<open>o\<close> where it is above.
\<close>

theorem getHandName_standard_label:
  assumes "row < 13" and "col < 13"
  shows "getHandName row col = class_label (cell_class row col)
         \<and> valid_class (cell_class row col)"
  using assms by (simp add: getHandName_label cell_class_valid)

theorem getHandName_standard_label_witness:
  "(0::nat) < 13 \<and> (1::nat) < 13 \<and> getHandName 0 1 = ''AKs'' \<and> cell_class 0 1 = Suited 14 13
   \<and> getHandName 1 0 = ''AKo'' \<and> cell_class 1 0 = Offsuit 14 13
   \<and> getHandName 0 0 = ''AA'' \<and> cell_class 0 0 = Pair 14"
  using getHandName_standard_label [of 0 1] getHandName_standard_label [of 1 0]
    getHandName_standard_label [of 0 0]
  by (simp add: cell_class_def rank_symbol_def)

lemma set_grid_cells: "set grid_cells = {0..<13} \<times> {0..<13}"
  by (simp add: grid_cells_def del: upt_rec_numeral)

lemma grid_inj: "inj_on (\<lambda>(row, col). getHandName row col) (set grid_cells)"
  unfolding set_grid_cells
  by (rule inj_onI) (auto dest: getHandName_inj)

lemma grid_image:
  "(\<lambda>(row, col). getHandName row col) ` set grid_cells = class_label ` set canonical_classes"
proof (intro set_eqI iffI)
  fix x assume "x \<in> (\<lambda>(row, col). getHandName row col) ` set grid_cells"
  then obtain row col where "row < 13" "col < 13" "x = getHandName row col"
    by (auto simp: set_grid_cells)
  then have "x = class_label (cell_class row col)" "cell_class row col \<in> set canonical_classes"
    by (simp_all add: getHandName_label mem_canonical cell_class_valid)
  then show "x \<in> class_label ` set canonical_classes" by blast
next
  fix x assume "x \<in> class_label ` set canonical_classes"
  then obtain k where k: "valid_class k" "x = class_label k"
    by (auto simp: mem_canonical)
  from cell_class_surj [OF k(1)] obtain row col
    where rc: "row < 13" "col < 13" "cell_class row col = k" by blast
  then have "x = (\<lambda>(row, col). getHandName row col) (row, col)" "(row, col) \<in> set grid_cells"
    using k(2) by (simp_all add: getHandName_label set_grid_cells)
  then show "x \<in> (\<lambda>(row, col). getHandName row col) ` set grid_cells" by blast
qed

lemma grid_card: "card ((\<lambda>(row, col). getHandName row col) ` set grid_cells) = 169"
  by (simp add: card_image [OF grid_inj]) (simp add: set_grid_cells)

lemma diagonal_image: "(\<lambda>i. getHandName i i) ` {0..<13} = class_label ` set pair_classes"
proof (intro set_eqI iffI)
  fix x assume "x \<in> (\<lambda>i. getHandName i i) ` {0..<13}"
  then obtain i where "i < 13" "x = getHandName i i" by auto
  then have "x = class_label (Pair (14 - i))" "Pair (14 - i) \<in> set pair_classes"
    by (auto simp: getHandName_label cell_class_def pair_classes_def image_iff
        simp del: upt_rec_numeral)
  then show "x \<in> class_label ` set pair_classes" by blast
next
  fix x assume "x \<in> class_label ` set pair_classes"
  then obtain a where a: "2 \<le> a" "a \<le> 14" "x = class_label (Pair a)"
    by (auto simp: pair_classes_def simp del: upt_rec_numeral)
  then have "14 - a < 13" "cell_class (14 - a) (14 - a) = Pair a"
    by (auto simp: cell_class_def)
  with a(3) have "x = getHandName (14 - a) (14 - a)" "14 - a \<in> {0..<13}"
    by (simp_all add: getHandName_label)
  then show "x \<in> (\<lambda>i. getHandName i i) ` {0..<13}" by blast
qed

lemma upper_image:
  "(\<lambda>(row, col). getHandName row col) ` {(row, col). row < col \<and> col < 13}
     = class_label ` set suited_classes"
proof (intro set_eqI iffI)
  fix x assume "x \<in> (\<lambda>(row, col). getHandName row col) ` {(row, col). row < col \<and> col < 13}"
  then obtain row col where rc: "row < col" "col < 13" "x = getHandName row col" by auto
  then have "x = class_label (Suited (14 - row) (14 - col))"
    "Suited (14 - row) (14 - col) \<in> set suited_classes"
    by (auto simp: getHandName_label cell_class_def suited_classes_def image_iff
        simp del: upt_rec_numeral)
  then show "x \<in> class_label ` set suited_classes" by blast
next
  fix x assume "x \<in> class_label ` set suited_classes"
  then obtain hi lo where a: "2 \<le> lo" "lo < hi" "hi \<le> 14" "x = class_label (Suited hi lo)"
    by (auto simp: suited_classes_def simp del: upt_rec_numeral)
  then have "14 - hi < 14 - lo" "14 - lo < 13" "cell_class (14 - hi) (14 - lo) = Suited hi lo"
    by (auto simp: cell_class_def)
  with a(4) have "x = (\<lambda>(row, col). getHandName row col) (14 - hi, 14 - lo)"
    "(14 - hi, 14 - lo) \<in> {(row, col). row < col \<and> col < 13}"
    by (simp_all add: getHandName_label)
  then show "x \<in> (\<lambda>(row, col). getHandName row col) ` {(row, col). row < col \<and> col < 13}"
    by blast
qed

lemma lower_image:
  "(\<lambda>(row, col). getHandName row col) ` {(row, col). col < row \<and> row < 13}
     = class_label ` set offsuit_classes"
proof (intro set_eqI iffI)
  fix x assume "x \<in> (\<lambda>(row, col). getHandName row col) ` {(row, col). col < row \<and> row < 13}"
  then obtain row col where rc: "col < row" "row < 13" "x = getHandName row col" by auto
  then have "x = class_label (Offsuit (14 - col) (14 - row))"
    "Offsuit (14 - col) (14 - row) \<in> set offsuit_classes"
    by (auto simp: getHandName_label cell_class_def offsuit_classes_def image_iff
        simp del: upt_rec_numeral)
  then show "x \<in> class_label ` set offsuit_classes" by blast
next
  fix x assume "x \<in> class_label ` set offsuit_classes"
  then obtain hi lo where a: "2 \<le> lo" "lo < hi" "hi \<le> 14" "x = class_label (Offsuit hi lo)"
    by (auto simp: offsuit_classes_def simp del: upt_rec_numeral)
  then have "14 - hi < 14 - lo" "14 - lo < 13" "cell_class (14 - lo) (14 - hi) = Offsuit hi lo"
    by (auto simp: cell_class_def)
  with a(4) have "x = (\<lambda>(row, col). getHandName row col) (14 - lo, 14 - hi)"
    "(14 - lo, 14 - hi) \<in> {(row, col). col < row \<and> row < 13}"
    by (simp_all add: getHandName_label)
  then show "x \<in> (\<lambda>(row, col). getHandName row col) ` {(row, col). col < row \<and> row < 13}"
    by blast
qed

lemma distinct_labels: "distinct (map class_label canonical_classes)"
  by code_simp

lemma corners: "getHandName 0 0 = ''AA''" "getHandName 12 12 = ''22''"
  by (simp_all add: getHandName_def rank_at_def ranks_def)

lemma length_ranks: "length ranks = 13"
  by (simp add: ranks_def)

lemma grid_hands:
  "concat (map (map cell_hand) (heatmap_grid data playerCount))
     = map (\<lambda>(row, col). getHandName row col) grid_cells"
  by (simp add: heatmap_grid_def heatmap_cell_def grid_cells_def length_ranks
      List.product_concat_map map_concat comp_def Let_def del: upt_rec_numeral)

lemma grid_distinct: "distinct (map (\<lambda>(row, col). getHandName row col) grid_cells)"
proof -
  have "distinct grid_cells"
    by (simp add: grid_cells_def distinct_product del: upt_rec_numeral)
  with grid_inj show ?thesis by (simp add: distinct_map)
qed

lemma grid_nth:
  "row < 13 \<Longrightarrow> col < 13 \<Longrightarrow>
     heatmap_grid data playerCount ! row ! col = heatmap_cell data playerCount row col"
  by (simp add: heatmap_grid_def length_ranks del: upt_rec_numeral)

text \<open>
  Claim C4. \<^verbatim>\<open>getHandName\<close> is injective on the 169 cells of the grid, and its image is
  the set of the 169 labels of the canonical classes, each once: the 13 pairs on the
  diagonal, with \<open>AA\<close> at cell (0, 0) and \<open>22\<close> at cell (12, 12), the 78 suited labels
  above the diagonal and the 78 offsuit labels below it. The hands the rendered grid
  shows are these labels, cell by cell, so it shows every class once.
\<close>

theorem getHandName_grid_bijection:
  "inj_on (\<lambda>(row, col). getHandName row col) (set grid_cells)
   \<and> (\<lambda>(row, col). getHandName row col) ` set grid_cells = class_label ` set canonical_classes
   \<and> card ((\<lambda>(row, col). getHandName row col) ` set grid_cells) = 169
   \<and> concat (map (map cell_hand) (heatmap_grid data playerCount))
       = map (\<lambda>(row, col). getHandName row col) grid_cells
   \<and> distinct (map (\<lambda>(row, col). getHandName row col) grid_cells)
   \<and> set canonical_classes = {k. valid_class k}
   \<and> distinct (map class_label canonical_classes)
   \<and> getHandName 0 0 = ''AA'' \<and> getHandName 12 12 = ''22''
   \<and> (\<lambda>i. getHandName i i) ` {0..<13} = class_label ` set pair_classes
   \<and> length pair_classes = 13
   \<and> (\<lambda>(row, col). getHandName row col) ` {(row, col). row < col \<and> col < 13}
       = class_label ` set suited_classes
   \<and> length suited_classes = 78
   \<and> (\<lambda>(row, col). getHandName row col) ` {(row, col). col < row \<and> row < 13}
       = class_label ` set offsuit_classes
   \<and> length offsuit_classes = 78"
proof -
  have "set canonical_classes = {k. valid_class k}"
    by (auto simp: mem_canonical)
  then show ?thesis
    using grid_inj grid_image grid_card grid_hands grid_distinct distinct_labels corners
      diagonal_image upper_image lower_image length_classes
    by (intro conjI)
qed

section \<open>Colour bands\<close>

lemma thresholds_ordered:
  "case thresholds pc of (p, s, l) \<Rightarrow> l + 5 \<le> s \<and> s + 5 \<le> p"
  by (simp add: thresholds_def)

lemma band_index_chain:
  fixes e p s l :: real
  assumes "l + 5 \<le> s" "s + 5 \<le> p"
  shows "band_index
          (if e \<ge> p + 10 then ''bg-emerald-600''
          else if e \<ge> p + 5 then ''bg-emerald-500''
          else if e \<ge> p then ''bg-green-500''
          else if e \<ge> s + 5 then ''bg-green-400''
          else if e \<ge> s then ''bg-lime-400''
          else if e \<ge> l + 5 then ''bg-yellow-400''
          else if e \<ge> l then ''bg-yellow-500''
          else if e \<ge> l - 5 then ''bg-orange-400''
          else if e \<ge> l - 10 then ''bg-orange-500''
          else if e \<ge> l - 15 then ''bg-red-400''
          else ''bg-red-500'')
        = length (filter (\<lambda>c. c \<le> e) [p + 10, p + 5, p, s + 5, s, l + 5, l, l - 5, l - 10, l - 15])"
  using assms by (auto simp add: band_index_def color_bands_def)

lemma getColor_band:
  "band_index (getColor pc e) = length (filter (\<lambda>c. c \<le> e) (cutoffs pc))"
proof -
  obtain p s l where t: "thresholds pc = (p, s, l)" by (cases "thresholds pc") auto
  with thresholds_ordered [of pc] have "l + 5 \<le> s" "s + 5 \<le> p" by auto
  then show ?thesis
    by (simp only: getColor_def cutoffs_def t prod.case band_index_chain)
qed

lemma filter_length_mono:
  "(\<And>x. P x \<Longrightarrow> Q x) \<Longrightarrow> length (filter P xs) \<le> length (filter Q xs)"
  by (induction xs) auto

lemma getColor_mono:
  "e1 \<le> e2 \<Longrightarrow> band_index (getColor pc e1) \<le> band_index (getColor pc e2)"
  unfolding getColor_band by (rule filter_length_mono) simp

lemma getColor_in_bands: "getColor pc e \<in> set color_bands"
  by (simp add: getColor_def color_bands_def split: prod.split)

lemma cutoffs_sorted: "sorted_wrt (\<ge>) (cutoffs pc)"
  by (simp add: cutoffs_def thresholds_def)

lemma cutoffs_strict: "2 \<le> pc \<Longrightarrow> pc \<le> 5 \<Longrightarrow> sorted_wrt (>) (cutoffs pc)"
  by (simp add: cutoffs_def thresholds_def)

lemma no_yellow: "getColor 6 e \<noteq> ''bg-yellow-400''"
  by (simp add: getColor_def thresholds_def)

lemma getColor_first_cutoff:
  "getColor pc e = rev color_bands ! length (takeWhile (\<lambda>c. e < c) (cutoffs pc))"
  by (simp add: getColor_def cutoffs_def color_bands_def split: prod.split)

lemma bands: "length color_bands = 11" "distinct color_bands"
  by (simp_all add: color_bands_def)

text \<open>
  Claim C9, as amended. For every player count from 2 to 6, \<^verbatim>\<open>getColor\<close> is total and
  returns one of its eleven classes; its ten cutoffs never increase along the branches,
  and strictly decrease for player counts 2 to 5; the band is a monotone step function
  of the equity.
\<close>

theorem getColor_monotone_bands:
  assumes "2 \<le> playerCount" and "playerCount \<le> 6"
  shows "getColor playerCount e \<in> set color_bands
         \<and> length color_bands = 11 \<and> distinct color_bands
         \<and> length (cutoffs playerCount) = 10
         \<and> getColor playerCount e
             = rev color_bands ! length (takeWhile (\<lambda>c. e < c) (cutoffs playerCount))
         \<and> sorted_wrt (\<ge>) (cutoffs playerCount)
         \<and> (playerCount \<le> 5 \<longrightarrow> sorted_wrt (>) (cutoffs playerCount))
         \<and> (e1 \<le> e2 \<longrightarrow>
              band_index (getColor playerCount e1) \<le> band_index (getColor playerCount e2))"
proof -
  have "length (cutoffs playerCount) = 10"
    by (simp add: cutoffs_def split: prod.split)
  then show ?thesis
    using assms getColor_in_bands bands getColor_first_cutoff cutoffs_sorted cutoffs_strict
      getColor_mono
    by (intro conjI impI) auto
qed

theorem getColor_monotone_bands_witness:
  "(2::nat) \<le> 6 \<and> (6::nat) \<le> 6 \<and> (199 / 10 :: real) \<le> 20
   \<and> getColor 6 (199 / 10) = ''bg-yellow-500'' \<and> getColor 6 20 = ''bg-lime-400''
   \<and> band_index ''bg-yellow-500'' \<le> band_index ''bg-lime-400''
   \<and> cutoffs 6 = [37, 32, 27, 25, 20, 20, 15, 10, 5, 0]
   \<and> (2::nat) \<le> 5 \<and> sorted_wrt (>) (cutoffs 2)"
  using getColor_monotone_bands [of 6 "199 / 10" "199 / 10" 20]
    getColor_monotone_bands [of 2 0 0 0]
  by (simp add: getColor_def thresholds_def cutoffs_def band_index_def color_bands_def)

text \<open>
  At player count 6 the cutoffs are not strictly decreasing: the strong threshold and
  the playable threshold plus 5 are both 20, so an equity of 20 is already in the band
  of \<open>bg-lime-400\<close>.
\<close>

theorem cutoffs_six_max_not_strict:
  "cutoffs 6 ! 4 = 20 \<and> cutoffs 6 ! 5 = 20 \<and> \<not> sorted_wrt (>) (cutoffs 6)
   \<and> getColor 6 20 = ''bg-lime-400''"
  by (simp add: cutoffs_def thresholds_def getColor_def)

section \<open>Heatmap cells\<close>

text \<open>A hand or a table-size entry that is missing reads as equity 0.\<close>

lemma getEquity_missing_hand: "hands data h = None \<Longrightarrow> getEquity data pc h = 0"
  by (simp add: getEquity_def)

lemma getEquity_missing_entry:
  "hands data h = Some handData \<Longrightarrow> handData (players_key pc) = None \<Longrightarrow> getEquity data pc h = 0"
  by (simp add: getEquity_def)

lemma getEquity_present:
  "hands data h = Some handData \<Longrightarrow> handData (players_key pc) = Some playerData
     \<Longrightarrow> getEquity data pc h = fmul (number_of_real (equity playerData)) (Finite 100)"
  by (simp add: getEquity_def)

lemma reachable_range: "playerCount_reachable pc \<Longrightarrow> 2 \<le> pc \<and> pc \<le> 6"
  by (induction rule: playerCount_reachable.induct)
     (auto simp: playerCount_init_def button_counts_def)

text \<open>The template gives the key of the specification for each of the five table sizes.\<close>

lemma players_key_table:
  assumes "2 \<le> pc" "pc \<le> 6"
  shows "players_key pc = table_key pc"
proof -
  from assms have "pc = 2 \<or> pc = 3 \<or> pc = 4 \<or> pc = 5 \<or> pc = 6" by arith
  then show ?thesis
    by (elim disjE) (simp_all add: players_key_def table_key_def string_of_nat.simps digit_char_def)
qed

lemma getEquity_range:
  assumes "equities_in_unit data"
  shows "\<exists>d. getEquity data pc h = Finite d \<and> 0 \<le> d \<and> d \<le> 100"
proof (cases "hands data h")
  case None
  then show ?thesis by (simp add: getEquity_def zero_number_def)
next
  case (Some handData)
  then have hd: "handData \<in> ran (hands data)" by (auto simp: ran_def)
  show ?thesis
  proof (cases "handData (players_key pc)")
    case None
    with Some show ?thesis by (simp add: getEquity_def zero_number_def)
  next
    case e: (Some playerData)
    then have "playerData \<in> ran handData" by (auto simp: ran_def)
    with assms hd have "0 \<le> equity playerData" "equity playerData \<le> 1"
      by (auto simp: equities_in_unit_def)
    from percent_of_unit [OF this] Some e show ?thesis
      by (auto simp: getEquity_def)
  qed
qed

lemma sample_unit: "equities_in_unit sample_artifact"
  by (simp add: equities_in_unit_def sample_artifact_def sample_entries_def ran_distinct)

text \<open>
  Two reals that are close have the same nearest number of tenths, unless a half-way
  point lies as close.
\<close>

lemma floor_stable:
  fixes x y :: real
  assumes "\<bar>x - y\<bar> \<le> \<delta>" and "\<delta> < frac y" and "frac y < 1 - \<delta>"
  shows "\<lfloor>x\<rfloor> = \<lfloor>y\<rfloor>"
proof (rule floor_unique)
  have y: "y = of_int \<lfloor>y\<rfloor> + frac y" by (simp add: frac_def)
  from assms(1) have "y - \<delta> \<le> x" "x \<le> y + \<delta>" by linarith+
  with y assms(2,3) show "of_int \<lfloor>y\<rfloor> \<le> x" "x < of_int \<lfloor>y\<rfloor> + 1" by linarith+
qed

lemma nearest_tenths_stable:
  assumes "\<bar>d - x\<bar> \<le> \<delta>" and "10 * \<delta> < frac (x * 10 + 1 / 2)"
    and "frac (x * 10 + 1 / 2) < 1 - 10 * \<delta>"
  shows "nearest_tenths d = nearest_tenths x"
proof -
  have "\<bar>(d * 10 + 1 / 2) - (x * 10 + 1 / 2)\<bar> = \<bar>10 * (d - x)\<bar>" by (simp add: algebra_simps)
  also have "\<dots> = 10 * \<bar>d - x\<bar>" by (subst abs_mult) simp
  finally have "\<bar>(d * 10 + 1 / 2) - (x * 10 + 1 / 2)\<bar> = 10 * \<bar>d - x\<bar>" .
  with assms(1) have "\<bar>(d * 10 + 1 / 2) - (x * 10 + 1 / 2)\<bar> \<le> 10 * \<delta>" by simp
  from floor_stable [OF this assms(2,3)] show ?thesis by (simp add: nearest_tenths_def)
qed

text \<open>
  The product the cell prints is the product of doubles: for the equity written
  \<open>0.1495\<close> it lies just below \<open>14.95\<close>, and the cell shows \<open>14.9%\<close>.
\<close>

lemma cell_text_below_half_way:
  "cell_text (heatmap_cell \<lparr> hands = [''AKs'' \<mapsto> [''players_6'' \<mapsto> \<lparr> equity = 1495 / 10000 \<rparr>]] \<rparr> 6 0 1)
     = ''14.9%''"
  by (simp add: heatmap_cell_def getHandName_def rank_at_def ranks_def getEquity_def
      players_key_def string_of_nat.simps digit_char_def toFixed1_def fixed_digits_def
      fmul_def number_of_real_def round64_def ulp_def binade_def compute_bitlen
      round_half_even_def Let_def)

text \<open>
  Claim C5. For a cell of the grid whose hand has an entry for the selected table size,
  at any player count \<open>N\<close> the buttons can select: the key read is \<open>players_N\<close>, one of
  the five keys of the specification; the cell shows the product of that entry's equity
  and 100, as the arithmetic of the language computes it, to one decimal place and with
  a percent sign, and the tooltip shows the same text after the hand; the value depends
  on the entry under that key alone. For an equity in \<open>[0, 1]\<close> the product lies in
  \<open>[0, 100]\<close> and within \<open>2^(-45)\<close> of the exact one, the text reads back as the number
  of tenths nearest to it, and this is the number of tenths nearest to the exact product
  whenever that is not within \<open>2^(-41)\<close> tenths of a half-way point. On an artifact
  whose equities lie in \<open>[0, 1]\<close> every value of \<^verbatim>\<open>getEquity\<close> lies in \<open>[0, 100]\<close>.
\<close>

theorem heatmap_cell_display:
  assumes "playerCount_reachable playerCount" and "row < 13" and "col < 13"
    and "hands data (getHandName row col) = Some handData"
    and "handData (table_key playerCount) = Some playerData"
  shows "heatmap_grid data playerCount ! row ! col = heatmap_cell data playerCount row col
         \<and> playerCount \<in> set button_counts
         \<and> players_key playerCount = table_key playerCount
         \<and> getEquity data playerCount (getHandName row col)
             = fmul (number_of_real (equity playerData)) (Finite 100)
         \<and> cell_text (heatmap_cell data playerCount row col)
             = toFixed1 (fmul (number_of_real (equity playerData)) (Finite 100)) @ ''%''
         \<and> cell_title (heatmap_cell data playerCount row col)
             = getHandName row col @ '': '' @ cell_text (heatmap_cell data playerCount row col)
               @ '' equity''
         \<and> (hands data' h = Some handData' \<and> handData' (table_key playerCount) = Some playerData
              \<longrightarrow> getEquity data' playerCount h
                    = getEquity data playerCount (getHandName row col))
         \<and> (0 \<le> equity playerData \<and> equity playerData \<le> 1 \<longrightarrow>
              (\<exists>d. getEquity data playerCount (getHandName row col) = Finite d
                 \<and> 0 \<le> d \<and> d \<le> 100 \<and> \<bar>d - equity playerData * 100\<bar> \<le> 2 powi (- 45)
                 \<and> read_percent (cell_text (heatmap_cell data playerCount row col))
                     = Some (nearest_tenths d)
                 \<and> (2 powi (- 41) < frac (equity playerData * 100 * 10 + 1 / 2)
                      \<and> frac (equity playerData * 100 * 10 + 1 / 2) < 1 - 2 powi (- 41)
                    \<longrightarrow> read_percent (cell_text (heatmap_cell data playerCount row col))
                          = Some (nearest_tenths (equity playerData * 100)))))
         \<and> (equities_in_unit data \<longrightarrow>
              (\<exists>d. getEquity data playerCount h' = Finite d \<and> 0 \<le> d \<and> d \<le> 100))"
proof -
  from assms(1) have r: "2 \<le> playerCount" "playerCount \<le> 6"
    using reachable_range by simp_all
  then have b: "playerCount \<in> set button_counts" by (auto simp: button_counts_def)
  from r have k: "players_key playerCount = table_key playerCount" by (rule players_key_table)
  have g: "heatmap_grid data playerCount ! row ! col = heatmap_cell data playerCount row col"
    using assms(2,3) by (rule grid_nth)
  have e: "getEquity data playerCount (getHandName row col)
             = fmul (number_of_real (equity playerData)) (Finite 100)"
    using assms(4,5) by (simp add: getEquity_def k)
  have t: "cell_text (heatmap_cell data playerCount row col)
             = toFixed1 (fmul (number_of_real (equity playerData)) (Finite 100)) @ ''%''"
    by (simp add: heatmap_cell_def Let_def e)
  have ti: "cell_title (heatmap_cell data playerCount row col)
             = getHandName row col @ '': '' @ cell_text (heatmap_cell data playerCount row col)
               @ '' equity''"
    by (simp add: heatmap_cell_def Let_def)
  have o: "hands data' h = Some handData' \<and> handData' (table_key playerCount) = Some playerData
              \<longrightarrow> getEquity data' playerCount h
                    = getEquity data playerCount (getHandName row col)"
    by (simp add: e) (simp add: getEquity_def k)
  have u: "\<exists>d. getEquity data playerCount (getHandName row col) = Finite d
                 \<and> 0 \<le> d \<and> d \<le> 100 \<and> \<bar>d - equity playerData * 100\<bar> \<le> 2 powi (- 45)
                 \<and> read_percent (cell_text (heatmap_cell data playerCount row col))
                     = Some (nearest_tenths d)
                 \<and> (2 powi (- 41) < frac (equity playerData * 100 * 10 + 1 / 2)
                      \<and> frac (equity playerData * 100 * 10 + 1 / 2) < 1 - 2 powi (- 41)
                    \<longrightarrow> read_percent (cell_text (heatmap_cell data playerCount row col))
                          = Some (nearest_tenths (equity playerData * 100)))"
    if "0 \<le> equity playerData \<and> equity playerData \<le> 1"
  proof -
    from that have "0 \<le> equity playerData" "equity playerData \<le> 1" by simp_all
    from percent_of_unit [OF this] obtain d where
      d: "fmul (number_of_real (equity playerData)) (Finite 100) = Finite d" "0 \<le> d" "d \<le> 100"
        "\<bar>d - equity playerData * 100\<bar> \<le> 2 powi (- 45)"
      by blast
    have p: "read_percent (cell_text (heatmap_cell data playerCount row col))
               = Some (nearest_tenths d)"
      by (simp only: t d(1) read_percent_toFixed1 [OF d(2,3)])
    have "nearest_tenths d = nearest_tenths (equity playerData * 100)"
      if "2 powi (- 41) < frac (equity playerData * 100 * 10 + 1 / 2)
          \<and> frac (equity playerData * 100 * 10 + 1 / 2) < 1 - 2 powi (- 41)"
    proof (rule nearest_tenths_stable [OF d(4)])
      have "10 * 2 powi (- 45) \<le> (2::real) powi (- 41)" by (simp add: power_int_minus)
      with that show "10 * 2 powi (- 45) < frac (equity playerData * 100 * 10 + 1 / 2)"
        "frac (equity playerData * 100 * 10 + 1 / 2) < 1 - 10 * 2 powi (- 45)"
        by linarith+
    qed
    with p d e show ?thesis by auto
  qed
  from g b k e t ti o u getEquity_range show ?thesis
    by (intro conjI impI) blast+
qed

theorem heatmap_cell_display_witness:
  "playerCount_reachable 6 \<and> (0::nat) < 13 \<and> (1::nat) < 13
   \<and> getHandName 0 1 = ''AKs'' \<and> table_key 6 = ''players_6''
   \<and> map_option equity (the (hands sample_artifact ''AKs'') ''players_6'') = Some (311 / 1000)
   \<and> players_key 6 = ''players_6''
   \<and> cell_text (heatmap_grid sample_artifact 6 ! 0 ! 1) = ''31.1%''
   \<and> cell_title (heatmap_grid sample_artifact 6 ! 0 ! 1) = ''AKs: 31.1% equity''
   \<and> read_percent ''31.1%'' = Some 311 \<and> nearest_tenths (311 / 1000 * 100) = 311
   \<and> getEquity \<lparr> hands = [''AKs'' \<mapsto> [''players_3'' \<mapsto> \<lparr> equity = 1 / 2 \<rparr>,
                                          ''players_6'' \<mapsto> \<lparr> equity = 311 / 1000 \<rparr>]] \<rparr>
        6 ''AKs'' = getEquity sample_artifact 6 ''AKs''
   \<and> equities_in_unit sample_artifact
   \<and> getEquity sample_artifact 6 ''72o'' = Finite 0"
proof -
  let ?entry = "map_of [(''players_2'', \<lparr> equity = 67 / 100 \<rparr>),
                        (''players_6'', \<lparr> equity = 311 / 1000 \<rparr>)]"
  let ?entry' = "[''players_3'' \<mapsto> \<lparr> equity = 1 / 2 \<rparr>, ''players_6'' \<mapsto> \<lparr> equity = 311 / 1000 \<rparr>]"
  have r: "playerCount_reachable 6"
    using playerCount_reachable.initial by (simp add: playerCount_init_def)
  have k: "table_key 6 = ''players_6''"
    by (simp add: table_key_def)
  have n: "getHandName 0 1 = ''AKs''"
    by (simp add: getHandName_def rank_at_def ranks_def)
  have "hands sample_artifact ''AKs'' = Some ?entry"
    by (simp add: sample_artifact_def sample_entries_def)
  then have h: "hands sample_artifact (getHandName 0 1) = Some ?entry"
    by (simp only: n)
  have e: "?entry (table_key 6) = Some \<lparr> equity = 311 / 1000 \<rparr>"
    by (simp add: k)
  have t: "toFixed1 (fmul (number_of_real (311 / 1000)) (Finite 100)) = ''31.1''"
    by (simp add: toFixed1_def fixed_digits_def string_of_nat.simps digit_char_def
        fmul_def number_of_real_def round64_def ulp_def binade_def compute_bitlen
        round_half_even_def Let_def)
  have o: "hands \<lparr> hands = [''AKs'' \<mapsto> ?entry'] \<rparr> ''AKs'' = Some ?entry'
           \<and> ?entry' (table_key 6) = Some \<lparr> equity = 311 / 1000 \<rparr>"
    by (simp add: k)
  have u: "0 \<le> equity \<lparr> equity = 311 / 1000 \<rparr> \<and> equity \<lparr> equity = 311 / 1000 \<rparr> \<le> 1"
    by simp
  have f: "2 powi (- 41) < frac (equity \<lparr> equity = 311 / 1000 \<rparr> * 100 * 10 + 1 / 2)
           \<and> frac (equity \<lparr> equity = 311 / 1000 \<rparr> * 100 * 10 + 1 / 2) < 1 - 2 powi (- 41)"
    by (simp add: frac_def power_int_minus)
  have z: "getEquity sample_artifact 6 ''72o'' = Finite 0"
    by (simp add: getEquity_def sample_artifact_def sample_entries_def zero_number_def)
  have "(0::nat) < 13" "(1::nat) < 13" by simp_all
  note w = heatmap_cell_display [OF r this h e,
      of "\<lparr> hands = [''AKs'' \<mapsto> ?entry'] \<rparr>" "''AKs''" ?entry' "''72o''"]
  note w' = w [THEN conjunct2, THEN conjunct2]
  note w'' = w' [THEN conjunct2, THEN conjunct2]
  note g = w [THEN conjunct1]
  note pk = w' [THEN conjunct1]
  note ct = w'' [THEN conjunct1]
  note ci = w'' [THEN conjunct2, THEN conjunct1]
  note dep = w'' [THEN conjunct2, THEN conjunct2, THEN conjunct1, rule_format, OF o]
  note un = w'' [THEN conjunct2, THEN conjunct2, THEN conjunct2, THEN conjunct1, rule_format, OF u]
  from dep have d: "getEquity \<lparr> hands = [''AKs'' \<mapsto> ?entry'] \<rparr> 6 ''AKs''
                      = getEquity sample_artifact 6 ''AKs''"
    by (simp only: n)
  from un f have p: "read_percent (cell_text (heatmap_cell sample_artifact 6 0 1))
                      = Some (nearest_tenths (equity \<lparr> equity = 311 / 1000 \<rparr> * 100))"
    by blast
  have c: "cell_text (heatmap_cell sample_artifact 6 0 1) = ''31.1%''"
    using ct t by simp
  have c': "cell_title (heatmap_cell sample_artifact 6 0 1) = ''AKs: 31.1% equity''"
    using ci c n by simp
  have nt: "nearest_tenths (311 / 1000 * 100) = 311"
    by (simp add: nearest_tenths_def)
  from p c nt have rp: "read_percent ''31.1%'' = Some 311" by simp
  have m: "map_option equity (the (hands sample_artifact ''AKs'') ''players_6'') = Some (311 / 1000)"
    by (simp add: sample_artifact_def sample_entries_def)
  from r n k m pk g c c' rp nt d sample_unit z show ?thesis
    by simp
qed

section \<open>Trend chart\<close>

lemma accumulate_step:
  "accumulate data key (s, c) h =
     (case (case hands data h of None \<Rightarrow> None | Some handData \<Rightarrow> map_option equity (handData key)) of
        None \<Rightarrow> (s, c)
      | Some x \<Rightarrow> (fadd s (fmul (number_of_real x) (Finite 100)), c + 1))"
  by (simp add: accumulate_def split: option.split)

lemma foldl_accumulate:
  "foldl (accumulate data key) (s, c) hs =
     (foldl fadd s (map (\<lambda>x. fmul (number_of_real x) (Finite 100)) (present_equities data key hs)),
      c + length (present_equities data key hs))"
proof (induction hs arbitrary: s c)
  case Nil
  then show ?case by (simp add: present_equities_def)
next
  case (Cons h hs)
  show ?case
    by (simp add: Cons.IH accumulate_step present_equities_def split: option.split)
qed

lemma category_value:
  assumes "2 \<le> n" and "n \<le> 6"
  shows "(case foldl (accumulate data (players_key n)) (0, 0) hs of
            (sm, count) \<Rightarrow>
              (c, if count > 0 then Text (toFixed1 (fdiv_count sm count)) else Number 0))
         = (c, category_mean data n hs)"
  by (simp add: foldl_accumulate category_mean_def double_mean_def double_sum_def Let_def
      players_key_table [OF assms])

lemma chartData_spec:
  "chartData data =
     map (\<lambda>n. \<lparr> players = n,
                 series = map (\<lambda>(c, hs). (c, category_mean data n hs)) handCategories \<rparr>)
         [2, 3, 4, 5, 6]"
  by (simp add: chartData_def category_value)

text \<open>
  The sum and the mean of up to five products in the arithmetic of the language, against
  the exact ones: each product and each addition adds a rounding error of \<open>2^(-45)\<close> at
  most, the sum stays below \<open>2^9\<close>.
\<close>

lemma double_sum_snoc:
  "double_sum (es @ [e]) = fadd (double_sum es) (fmul (number_of_real e) (Finite 100))"
  by (simp add: double_sum_def)

lemma double_sum_close:
  assumes "\<forall>e \<in> set es. 0 \<le> e \<and> e \<le> 1" and "length es \<le> 5"
  shows "\<exists>s. double_sum es = Finite s \<and> 0 \<le> s \<and> s \<le> 100 * real (length es)
           \<and> \<bar>s - sum_list (map (\<lambda>x. x * 100) es)\<bar> \<le> real (length es) * 2 powi (- 44)"
  using assms
proof (induction es rule: rev_induct)
  case Nil
  then show ?case by (simp add: double_sum_def zero_number_def)
next
  case (snoc e es)
  then obtain s where s: "double_sum es = Finite s" "0 \<le> s" "s \<le> 100 * real (length es)"
      "\<bar>s - sum_list (map (\<lambda>x. x * 100) es)\<bar> \<le> real (length es) * 2 powi (- 44)"
    by auto
  from snoc.prems have "0 \<le> e" "e \<le> 1" by simp_all
  from percent_of_unit [OF this] obtain p where
    p: "fmul (number_of_real e) (Finite 100) = Finite p" "0 \<le> p" "p \<le> 100"
      "\<bar>p - e * 100\<bar> \<le> 2 powi (- 45)"
    by blast
  define t where "t = round64 (s + p)"
  from snoc.prems(2) have l: "length es \<le> 4" by simp
  have "0 \<le> s + p" using s(2) p(2) by simp
  moreover have "s + p \<le> real (100 * (length es + 1))" using s(3) p(3) by simp
  moreover have "100 * (length es + 1) < 2 ^ 53" using l by simp
  ultimately have t: "number_of_real (s + p) = Finite t" "0 \<le> t"
      "t \<le> real (100 * (length es + 1))"
    using number_of_real_range [of "s + p" "100 * (length es + 1)"] by (simp_all add: t_def)
  have "real (length es) \<le> 4" using l by simp
  with s(2,3) p(2,3) have "\<bar>s + p\<bar> < 2 powi 9" by simp
  then have "\<bar>round64 (s + p) - (s + p)\<bar> \<le> 2 powi (9 - 54)" by (rule round64_close) simp
  then have r: "\<bar>t - (s + p)\<bar> \<le> 2 powi (- 45)" by (simp add: t_def)
  have "\<bar>t - (sum_list (map (\<lambda>x. x * 100) es) + e * 100)\<bar>
          \<le> \<bar>t - (s + p)\<bar> + \<bar>s - sum_list (map (\<lambda>x. x * 100) es)\<bar> + \<bar>p - e * 100\<bar>"
    by linarith
  also have "\<dots> \<le> 2 powi (- 45) + real (length es) * 2 powi (- 44) + 2 powi (- 45)"
    using r s(4) p(4) by linarith
  also have "\<dots> = real (length (es @ [e])) * 2 powi (- 44)"
    by (simp add: power_int_minus field_simps)
  finally have "\<bar>t - sum_list (map (\<lambda>x. x * 100) (es @ [e]))\<bar>
                  \<le> real (length (es @ [e])) * 2 powi (- 44)"
    by simp
  moreover have "double_sum (es @ [e]) = Finite t"
    by (simp add: double_sum_snoc s(1) p(1) fadd_def t(1))
  moreover have "t \<le> 100 * real (length (es @ [e]))" using t(3) by simp
  ultimately show ?case using t(2) by blast
qed

lemma double_mean_close:
  assumes "\<forall>e \<in> set es. 0 \<le> e \<and> e \<le> 1" and "length es \<le> 5" and "es \<noteq> []"
  shows "\<exists>d. double_mean es = Finite d \<and> 0 \<le> d \<and> d \<le> 100
           \<and> \<bar>d - exact_mean es\<bar> \<le> 2 powi (- 43)"
proof -
  from double_sum_close [OF assms(1,2)] obtain s where
    s: "double_sum es = Finite s" "0 \<le> s" "s \<le> 100 * real (length es)"
      "\<bar>s - sum_list (map (\<lambda>x. x * 100) es)\<bar> \<le> real (length es) * 2 powi (- 44)"
    by blast
  define k where "k = real (length es)"
  have k: "1 \<le> k" using assms(3) by (cases es) (simp_all add: k_def)
  define d where "d = round64 (s / k)"
  have q: "0 \<le> s / k" "s / k \<le> real 100"
    using s(2,3) k by (simp_all add: k_def [symmetric] field_simps)
  from number_of_real_range [OF this] have
    d: "number_of_real (s / k) = Finite d" "0 \<le> d" "d \<le> 100"
    by (simp_all add: d_def)
  have "\<bar>s / k\<bar> < 2 powi 7" using q by simp
  then have "\<bar>round64 (s / k) - s / k\<bar> \<le> 2 powi (7 - 54)" by (rule round64_close) simp
  then have r: "\<bar>d - s / k\<bar> \<le> 2 powi (- 47)" by (simp add: d_def)
  have "s / k - exact_mean es = (s - sum_list (map (\<lambda>x. x * 100) es)) / k"
    by (simp add: exact_mean_def k_def diff_divide_distrib)
  then have "\<bar>s / k - exact_mean es\<bar> = \<bar>s - sum_list (map (\<lambda>x. x * 100) es)\<bar> / k"
    using k by simp
  also have "\<dots> \<le> (k * 2 powi (- 44)) / k"
    using s(4) k by (intro divide_right_mono) (simp_all add: k_def)
  also have "\<dots> = 2 powi (- 44)" using k by simp
  finally have m: "\<bar>s / k - exact_mean es\<bar> \<le> 2 powi (- 44)" .
  have "\<bar>d - exact_mean es\<bar> \<le> \<bar>d - s / k\<bar> + \<bar>s / k - exact_mean es\<bar>" by linarith
  also have "\<dots> \<le> 2 powi (- 47) + 2 powi (- 44)" using r m by linarith
  also have "\<dots> \<le> 2 powi (- 43)" by (simp add: power_int_minus)
  finally have "\<bar>d - exact_mean es\<bar> \<le> 2 powi (- 43)" .
  moreover have "double_mean es = Finite d"
    using assms(3) d(1) by (simp add: double_mean_def s(1) fdiv_count_def k_def)
  ultimately show ?thesis using d(2,3) by blast
qed

lemma present_equities_length: "length (present_equities data key hs) \<le> length hs"
  by (induction hs) (simp_all add: present_equities_def split: option.split)

lemma present_equities_unit:
  assumes "equities_in_unit data"
  shows "\<forall>e \<in> set (present_equities data key hs). 0 \<le> e \<and> e \<le> 1"
proof
  fix e assume "e \<in> set (present_equities data key hs)"
  then obtain h handData playerData where
    "hands data h = Some handData" "handData key = Some playerData" "e = equity playerData"
    by (auto simp: present_equities_def List.map_filter_def split: option.splits)
  then have "handData \<in> ran (hands data)" "playerData \<in> ran handData" "e = equity playerData"
    by (auto simp: ran_def)
  with assms show "0 \<le> e \<and> e \<le> 1" by (auto simp: equities_in_unit_def)
qed

lemma handCategories_length: "(c, hs) \<in> set handCategories \<Longrightarrow> length hs \<le> 5"
  by (auto simp: handCategories_def)

lemma category_mean_shown:
  assumes "equities_in_unit data" and "length hs \<le> 5"
  shows "case category_mean data n hs of
           Number z \<Rightarrow> present_equities data (table_key n) hs = [] \<and> z = 0
         | Text t \<Rightarrow>
             present_equities data (table_key n) hs \<noteq> []
             \<and> (\<exists>d. 0 \<le> d \<and> d \<le> 100
                  \<and> \<bar>d - exact_mean (present_equities data (table_key n) hs)\<bar> \<le> 2 powi (- 43)
                  \<and> read_tenths t = Some (nearest_tenths d)
                  \<and> (2 powi (- 39)
                        < frac (exact_mean (present_equities data (table_key n) hs) * 10 + 1 / 2)
                      \<and> frac (exact_mean (present_equities data (table_key n) hs) * 10 + 1 / 2)
                        < 1 - 2 powi (- 39)
                      \<longrightarrow> read_tenths t
                            = Some (nearest_tenths
                                      (exact_mean (present_equities data (table_key n) hs)))))"
proof (cases "present_equities data (table_key n) hs = []")
  case True
  then show ?thesis by (simp add: category_mean_def)
next
  case False
  define es where "es = present_equities data (table_key n) hs"
  have "length es \<le> 5"
    using present_equities_length [of data "table_key n" hs] assms(2) by (simp add: es_def)
  with double_mean_close [of es] present_equities_unit [OF assms(1)] False
  obtain d where d: "double_mean es = Finite d" "0 \<le> d" "d \<le> 100"
      "\<bar>d - exact_mean es\<bar> \<le> 2 powi (- 43)"
    by (auto simp: es_def)
  have t: "read_tenths (toFixed1 (double_mean es)) = Some (nearest_tenths d)"
    by (simp only: d(1) toFixed1_Finite [OF d(2,3)] read_tenths_fixed_digits)
  have "nearest_tenths d = nearest_tenths (exact_mean es)"
    if "2 powi (- 39) < frac (exact_mean es * 10 + 1 / 2)
        \<and> frac (exact_mean es * 10 + 1 / 2) < 1 - 2 powi (- 39)"
  proof (rule nearest_tenths_stable [OF d(4)])
    have "10 * 2 powi (- 43) \<le> (2::real) powi (- 39)" by (simp add: power_int_minus)
    with that show "10 * 2 powi (- 43) < frac (exact_mean es * 10 + 1 / 2)"
      "frac (exact_mean es * 10 + 1 / 2) < 1 - 10 * 2 powi (- 43)"
      by linarith+
  qed
  with t d(2,3,4) False show ?thesis
    unfolding category_mean_def Let_def es_def [symmetric] by auto
qed

text \<open>
  Claim C10. \<^verbatim>\<open>EquityTrends\<close> builds five chart points, for 2, 3, 4, 5 and 6 players in
  this order. In each, the value of each of the four categories is taken over the hands
  of the category whose entry under the key of that table size is there: it is the
  number 0 when there is none, and else the mean of equity times 100, summed and
  divided in the arithmetic of the language, to one decimal place. On an artifact whose
  equities lie in \<open>[0, 1]\<close> that mean lies in \<open>[0, 100]\<close> and within \<open>2^(-43)\<close> of the
  exact mean, the text reads back as the number of tenths nearest to it, and this is the
  number of tenths nearest to the exact mean whenever that is not within \<open>2^(-39)\<close>
  tenths of a half-way point.
\<close>

theorem chartData_category_means:
  "chartData data =
     map (\<lambda>n. \<lparr> players = n,
                 series = map (\<lambda>(c, hs). (c, category_mean data n hs)) handCategories \<rparr>)
         [2, 3, 4, 5, 6]
   \<and> length (chartData data) = 5
   \<and> map players (chartData data) = [2, 3, 4, 5, 6]
   \<and> map (\<lambda>p. map fst (series p)) (chartData data)
       = replicate 5 [''Premium Pairs'', ''High Cards'', ''Mid Pairs'', ''Suited Connectors'']
   \<and> (equities_in_unit data \<and> (c, hs) \<in> set handCategories \<longrightarrow>
        (case category_mean data n hs of
           Number z \<Rightarrow> present_equities data (table_key n) hs = [] \<and> z = 0
         | Text t \<Rightarrow>
             present_equities data (table_key n) hs \<noteq> []
             \<and> (\<exists>d. 0 \<le> d \<and> d \<le> 100
                  \<and> \<bar>d - exact_mean (present_equities data (table_key n) hs)\<bar> \<le> 2 powi (- 43)
                  \<and> read_tenths t = Some (nearest_tenths d)
                  \<and> (2 powi (- 39)
                        < frac (exact_mean (present_equities data (table_key n) hs) * 10 + 1 / 2)
                      \<and> frac (exact_mean (present_equities data (table_key n) hs) * 10 + 1 / 2)
                        < 1 - 2 powi (- 39)
                      \<longrightarrow> read_tenths t
                            = Some (nearest_tenths
                                      (exact_mean (present_equities data (table_key n) hs)))))))"
proof -
  have "map fst handCategories = [''Premium Pairs'', ''High Cards'', ''Mid Pairs'', ''Suited Connectors'']"
    by (simp add: handCategories_def)
  then have "length (chartData data) = 5" "map players (chartData data) = [2, 3, 4, 5, 6]"
    "map (\<lambda>p. map fst (series p)) (chartData data)
       = replicate 5 [''Premium Pairs'', ''High Cards'', ''Mid Pairs'', ''Suited Connectors'']"
    by (simp_all add: chartData_spec comp_def case_prod_unfold numeral_eq_Suc)
  then show ?thesis
    using chartData_spec category_mean_shown handCategories_length
    by (intro conjI impI) blast+
qed

theorem chartData_category_means_witness:
  "equities_in_unit sample_artifact
   \<and> (''Premium Pairs'', [''AA'', ''KK'', ''QQ'']) \<in> set handCategories
   \<and> present_equities sample_artifact (table_key 6) [''AA'', ''KK'', ''QQ'']
       = [493 / 1000, 431 / 1000, 379 / 1000]
   \<and> exact_mean [493 / 1000, 431 / 1000, 379 / 1000] = 1303 / 30
   \<and> category_mean sample_artifact 6 [''AA'', ''KK'', ''QQ''] = Text ''43.4''
   \<and> read_tenths ''43.4'' = Some 434 \<and> nearest_tenths (1303 / 30) = 434
   \<and> category_mean sample_artifact 3 [''AA'', ''KK'', ''QQ''] = Number 0
   \<and> present_equities sample_artifact (table_key 3) [''AA'', ''KK'', ''QQ''] = []
   \<and> series (chartData sample_artifact ! 4)
       = [(''Premium Pairs'', Text ''43.4''), (''High Cards'', Text ''29.5''),
          (''Mid Pairs'', Text ''31.6''), (''Suited Connectors'', Text ''24.9'')]"
proof -
  let ?hs = "[''AA'', ''KK'', ''QQ'']"
  let ?es = "[493 / 1000, 431 / 1000, 379 / 1000] :: real list"
  have m: "(''Premium Pairs'', ?hs) \<in> set handCategories"
    by (simp add: handCategories_def)
  have pe: "present_equities sample_artifact (table_key 6) ?hs = ?es"
    by (simp add: present_equities_def table_key_def sample_artifact_def sample_entries_def)
  have pe3: "present_equities sample_artifact (table_key 3) ?hs = []"
    by (simp add: present_equities_def table_key_def sample_artifact_def sample_entries_def)
  have em: "exact_mean ?es = 1303 / 30"
    by (simp add: exact_mean_def)
  have cm: "category_mean sample_artifact 6 ?hs = Text ''43.4''"
    unfolding category_mean_def Let_def pe
    by (simp add: double_mean_def double_sum_def zero_number_def fadd_def fdiv_count_def
        toFixed1_def fixed_digits_def string_of_nat.simps digit_char_def
        fmul_def number_of_real_def round64_def ulp_def binade_def compute_bitlen
        round_half_even_def Let_def)
  have cm3: "category_mean sample_artifact 3 ?hs = Number 0"
    by (simp add: category_mean_def pe3)
  have f: "2 powi (- 39) < frac (exact_mean ?es * 10 + 1 / 2)
           \<and> frac (exact_mean ?es * 10 + 1 / 2) < 1 - 2 powi (- 39)"
    by (simp add: em frac_def power_int_minus)
  note w = chartData_category_means [of sample_artifact "''Premium Pairs''" ?hs 6]
  note w' = w [THEN conjunct2, THEN conjunct2, THEN conjunct2, THEN conjunct2, rule_format,
      OF conjI [OF sample_unit m]]
  from w' have "\<exists>d. read_tenths ''43.4'' = Some (nearest_tenths d)
                 \<and> (2 powi (- 39) < frac (exact_mean ?es * 10 + 1 / 2)
                      \<and> frac (exact_mean ?es * 10 + 1 / 2) < 1 - 2 powi (- 39)
                    \<longrightarrow> read_tenths ''43.4'' = Some (nearest_tenths (exact_mean ?es)))"
    unfolding cm pe by auto
  with f have rt: "read_tenths ''43.4'' = Some (nearest_tenths (1303 / 30))"
    by (auto simp only: em)
  have nt: "nearest_tenths (1303 / 30) = 434"
    by (simp add: nearest_tenths_def)
  have "category_mean sample_artifact 6 [''AKs'', ''AQs'', ''AJs'', ''KQs''] = Text ''29.5''"
    "category_mean sample_artifact 6 [''JJ'', ''TT'', ''99'', ''88''] = Text ''31.6''"
    "category_mean sample_artifact 6 [''JTs'', ''T9s'', ''98s'', ''87s''] = Text ''24.9''"
    by (simp_all add: category_mean_def present_equities_def table_key_def sample_artifact_def
        sample_entries_def
        double_mean_def double_sum_def zero_number_def fadd_def fdiv_count_def
        toFixed1_def fixed_digits_def string_of_nat.simps digit_char_def
        fmul_def number_of_real_def round64_def ulp_def binade_def compute_bitlen
        round_half_even_def Let_def)
  with cm have s: "series (chartData sample_artifact ! 4)
       = [(''Premium Pairs'', Text ''43.4''), (''High Cards'', Text ''29.5''),
          (''Mid Pairs'', Text ''31.6''), (''Suited Connectors'', Text ''24.9'')]"
    by (simp add: w [THEN conjunct1] handCategories_def)
  from sample_unit m pe em cm rt nt cm3 pe3 s show ?thesis
    by simp
qed

section \<open>Frame\<close>

lemma read_data_length: "read_data h r = Inr data \<Longrightarrow> r < length h"
  by (simp add: read_data_def split: if_splits)

lemma read_data_append: "r < length h \<Longrightarrow> read_data (h @ xs) r = read_data h r"
  by (simp add: read_data_def nth_append)

lemma read_data_update: "p \<noteq> r \<Longrightarrow> read_data (h[p := x]) r = read_data h r"
  by (simp add: read_data_def)

text \<open>
  While \<^verbatim>\<open>data\<close> reads as an artifact, the loops over the hands compute the fold of the
  loop body, and write nothing.
\<close>

lemma hands_forEach_value:
  "read_data h r = Inr data \<Longrightarrow>
     hands_forEach r key acc hs h = (h, Inr (foldl (accumulate data key) acc hs))"
  by (induction hs arbitrary: acc) (simp_all add: result_def andThen_def get_data_def)

lemma hands_forEach_throws:
  "read_data h r = Inl e \<Longrightarrow> hs \<noteq> [] \<Longrightarrow> hands_forEach r key acc hs h = (h, Inl e)"
  by (cases hs) (simp_all add: andThen_def get_data_def)

text \<open>
  The assignments of one chart point go to the object \<open>p\<close> of that point, which is not
  the artifact.
\<close>

lemma categories_forEach_value:
  assumes "read_data h r = Inr data" and "p < length h" and "p \<noteq> r"
  shows "categories_forEach r p n cats h =
           (h[p := foldl (\<lambda>x (c, hs).
                            put_property x c
                              (case foldl (accumulate data (players_key n)) (0, 0) hs of
                                 (sm, count) \<Rightarrow>
                                   if count > 0 then Str (toFixed1 (fdiv_count sm count))
                                   else Num 0))
                         (h ! p) cats],
            Inr ())"
  using assms
proof (induction cats arbitrary: h)
  case Nil
  then show ?case by (simp add: result_def)
next
  case (Cons a cats)
  obtain c hs where a: "a = (c, hs)" by (cases a)
  obtain sm count where f: "foldl (accumulate data (players_key n)) (0, 0) hs = (sm, count)"
    by (cases "foldl (accumulate data (players_key n)) (0, 0) hs")
  define v where "v = (if count > 0 then Str (toFixed1 (fdiv_count sm count)) else Num 0)"
  define h1 where "h1 = h[p := put_property (h ! p) c v]"
  have "read_data h1 r = Inr data" "p < length h1" "p \<noteq> r"
    using Cons.prems by (simp_all add: h1_def read_data_update)
  from Cons.IH [OF this] Cons.prems(2) show ?case
    by (simp add: a andThen_def hands_forEach_value [OF Cons.prems(1)] f set_property_def
        v_def [symmetric] h1_def [symmetric])
       (simp add: h1_def)
qed

lemma filled_point:
  "foldl (\<lambda>x (c, hs).
            put_property x c
              (case foldl (accumulate data (players_key n)) (0, 0) hs of
                 (sm, count) \<Rightarrow>
                   if count > 0 then Str (toFixed1 (fdiv_count sm count)) else Num 0))
         (Object [(''players'', Num (Finite (real n)))]) handCategories
     = point_object
         \<lparr> players = n,
           series =
             map (\<lambda>(category, hs).
                    (case foldl (accumulate data (players_key n)) (0, 0) hs of
                       (sm, count) \<Rightarrow>
                         (category,
                          if count > 0 then Text (toFixed1 (fdiv_count sm count))
                          else Number 0)))
                 handCategories \<rparr>"
  by (simp add: handCategories_def point_object_def zero_number_def split: prod.split)

lemma chartData_map_value:
  assumes "read_data h r = Inr data"
  shows "chartData_map r ns h =
           (h @ map (\<lambda>n. point_object
                             \<lparr> players = n,
                               series =
                                 map (\<lambda>(category, hs).
                                        (case foldl (accumulate data (players_key n)) (0, 0) hs of
                                           (sm, count) \<Rightarrow>
                                             (category,
                                              if count > 0
                                              then Text (toFixed1 (fdiv_count sm count))
                                              else Number 0)))
                                     handCategories \<rparr>) ns,
            Inr [length h ..< length h + length ns])"
  using assms
proof (induction ns arbitrary: h)
  case Nil
  then show ?case by (simp add: result_def)
next
  case (Cons n ns)
  let ?new = "Object [(''players'', Num (Finite (real n)))]"
  from Cons.prems have r: "r < length h" by (rule read_data_length)
  then have 1: "read_data (h @ [?new]) r = Inr data" "length h < length (h @ [?new])"
    "length h \<noteq> r"
    using Cons.prems by (simp_all add: read_data_append)
  note c = categories_forEach_value [OF 1, of n handCategories]
  define filled where "filled = point_object
         \<lparr> players = n,
           series =
             map (\<lambda>(category, hs).
                    (case foldl (accumulate data (players_key n)) (0, 0) hs of
                       (sm, count) \<Rightarrow>
                         (category,
                          if count > 0 then Text (toFixed1 (fdiv_count sm count))
                          else Number 0)))
                 handCategories \<rparr>"
  have c': "categories_forEach r (length h) n handCategories (h @ [?new]) = (h @ [filled], Inr ())"
    by (simp add: c filled_point filled_def)
  have "read_data (h @ [filled]) r = Inr data"
    using Cons.prems r by (simp add: read_data_append)
  from Cons.IH [OF this] show ?case
    by (simp add: andThen_def new_object_def c' result_def filled_def upt_conv_Cons
        del: upt_Suc)
qed

lemma categoryAverages_map_value:
  assumes "read_data h r = Inr data"
  shows "categoryAverages_map r cats h =
           (h, Inr (map (\<lambda>(c, hs).
                           (case foldl (accumulate data ''players_6'') (0, 0) hs of
                              (sm, count) \<Rightarrow>
                                \<lparr> category = c,
                                  avgEquity = (if count > 0 then fdiv_count sm count else 0) \<rparr>))
                        cats))"
proof (induction cats)
  case Nil
  then show ?case by (simp add: result_def)
next
  case (Cons a cats)
  then show ?case
    by (cases a)
       (simp add: andThen_def result_def hands_forEach_value [OF assms] split: prod.split)
qed

text \<open>
  When \<^verbatim>\<open>data.hands\<close> cannot be read, the render stops at the first hand, with the
  first chart point allocated.
\<close>

lemma read_data_fresh:
  assumes "read_data h r = Inl e" and "map_of (properties x) ''hands'' = None"
  shows "read_data (h @ [x]) r = Inl e"
proof (cases "r < length h")
  case True
  with assms(1) show ?thesis by (simp add: read_data_append)
next
  case False
  have "e = TypeError" by (cases e) simp
  with False assms(2) show ?thesis
    by (cases "r = length h") (simp_all add: read_data_def nth_append)
qed

lemma categories_forEach_throws:
  assumes "read_data h r = Inl e"
  shows "categories_forEach r p n handCategories h = (h, Inl e)"
proof -
  have "hands_forEach r (players_key n) (0, 0) [''AA'', ''KK'', ''QQ''] h = (h, Inl e)"
    using assms by (rule hands_forEach_throws) simp
  then show ?thesis
    by (simp add: handCategories_def andThen_def del: hands_forEach.simps)
qed

lemma EquityTrends_throws:
  assumes "read_data h r = Inl e"
  shows "EquityTrends h r = (h @ [Object [(''players'', Num (Finite 2))]], Inl e)"
proof -
  let ?h = "h @ [Object [(''players'', Num (Finite 2))]]"
  have "read_data ?h r = Inl e"
    using assms by (rule read_data_fresh) simp
  then have "categories_forEach r (length h) 2 handCategories ?h = (?h, Inl e)"
    by (rule categories_forEach_throws)
  then have "chartData_map r [2, 3, 4, 5, 6] h = (?h, Inl e)"
    by (simp add: andThen_def new_object_def)
  then show ?thesis
    by (simp add: EquityTrends_def andThen_def)
qed

lemma EquityTrends_value:
  assumes "read_data h r = Inr data"
  shows "EquityTrends h r =
           (h @ map point_object (chartData data)
              @ [ArrayObj (sort_descending (categoryAverages data)) []],
            Inr \<lparr> chart = [length h ..< length h + 5],
                  chart_lines = map category (sort_descending (categoryAverages data)) \<rparr>)"
proof -
  define h1 where "h1 = h @ map point_object (chartData data)"
  have 1: "chartData_map r [2, 3, 4, 5, 6] h = (h1, Inr [length h ..< length h + 5])"
    by (simp only: chartData_map_value [OF assms]) (simp add: h1_def chartData_def upt_conv_Cons)
  have "r < length h" using assms by (rule read_data_length)
  then have "read_data h1 r = Inr data"
    using assms by (simp add: h1_def read_data_append)
  then have 2: "categoryAverages_map r handCategories h1 = (h1, Inr (categoryAverages data))"
    by (simp add: categoryAverages_map_value categoryAverages_def)
  show ?thesis
    unfolding EquityTrends_def
    by (simp add: andThen_def 1 2 new_object_def Array_sort_def Array_categories_def result_def
        del: chartData_map.simps)
       (simp add: h1_def)
qed

text \<open>
  Claim C6. A render of \<^verbatim>\<open>EquityHeatmap\<close>, \<^verbatim>\<open>KeyInsights\<close> or \<^verbatim>\<open>EquityTrends\<close> leaves the
  artifact as it was. The first two leave the whole heap as it was. \<^verbatim>\<open>EquityTrends\<close>
  leaves every object that was there before the render as it was, so \<^verbatim>\<open>data\<close> reads as
  before: its assignments go to the chart points and its sort in place works on the
  array \<^verbatim>\<open>categoryAverages\<close>, all of which the render allocated itself. The heap after
  the render is the heap before it, then the five chart points with the values of
  \<^verbatim>\<open>chartData\<close>, then the sorted array; when \<^verbatim>\<open>data.hands\<close> cannot be read, it is the
  heap before it and the first chart point.
\<close>

theorem render_leaves_artifact_unchanged:
  "take (length h) (fst (EquityTrends h data_ref)) = h
   \<and> read_data (fst (EquityTrends h data_ref)) data_ref = read_data h data_ref
   \<and> fst (EquityHeatmap h data_ref playerCount) = h
   \<and> fst (KeyInsights h data_ref) = h
   \<and> EquityTrends h data_ref =
       (case read_data h data_ref of
          Inl e \<Rightarrow> (h @ [Object [(''players'', Num (Finite 2))]], Inl e)
        | Inr data \<Rightarrow>
            (h @ map point_object (chartData data)
               @ [ArrayObj (sort_descending (categoryAverages data)) []],
             Inr \<lparr> chart = [length h ..< length h + 5],
                   chart_lines = map category (sort_descending (categoryAverages data)) \<rparr>))"
proof -
  have t: "EquityTrends h data_ref =
       (case read_data h data_ref of
          Inl e \<Rightarrow> (h @ [Object [(''players'', Num (Finite 2))]], Inl e)
        | Inr data \<Rightarrow>
            (h @ map point_object (chartData data)
               @ [ArrayObj (sort_descending (categoryAverages data)) []],
             Inr \<lparr> chart = [length h ..< length h + 5],
                   chart_lines = map category (sort_descending (categoryAverages data)) \<rparr>))"
    by (simp add: EquityTrends_throws EquityTrends_value split: sum.split)
  have "take (length h) (fst (EquityTrends h data_ref)) = h"
    by (simp add: t split: sum.split)
  moreover have "read_data (fst (EquityTrends h data_ref)) data_ref = read_data h data_ref"
  proof (cases "read_data h data_ref")
    case (Inl e)
    then have "read_data (h @ [Object [(''players'', Num (Finite 2))]]) data_ref = Inl e"
      by (rule read_data_fresh) simp
    with Inl show ?thesis by (simp add: t)
  next
    case (Inr data)
    then have "data_ref < length h" by (rule read_data_length)
    with Inr show ?thesis by (simp add: t read_data_append)
  qed
  moreover have "fst (EquityHeatmap h data_ref playerCount) = h"
    by (simp add: EquityHeatmap_def andThen_def get_data_def result_def split: sum.split)
  moreover have "fst (KeyInsights h data_ref) = h"
    by (simp add: KeyInsights_def andThen_def get_data_def evaluate_def split: sum.split)
  ultimately show ?thesis using t by simp
qed

text \<open>The render of the sample artifact: the lines of the chart in descending order.\<close>

lemma read_data_sample: "read_data sample_heap 0 = Inr sample_artifact"
  by (simp add: read_data_def sample_heap_def)

lemma trends_sample:
  "snd (EquityTrends sample_heap 0) =
     Inr \<lparr> chart = [1, 2, 3, 4, 5],
           chart_lines = [''Premium Pairs'', ''Mid Pairs'', ''High Cards'', ''Suited Connectors''] \<rparr>"
proof -
  note r = read_data_sample
  have "map category (sort_descending (categoryAverages sample_artifact))
          = [''Premium Pairs'', ''Mid Pairs'', ''High Cards'', ''Suited Connectors'']"
    by (simp add: categoryAverages_def accumulate_def handCategories_def
        sample_artifact_def sample_entries_def sort_descending_def comparator_def positive_def
        fsub_def fneg_def zero_number_def fadd_def fdiv_count_def
        fmul_def number_of_real_def round64_def ulp_def binade_def compute_bitlen
        round_half_even_def Let_def)
  moreover have "snd (EquityTrends sample_heap 0) =
     Inr \<lparr> chart = [length sample_heap ..< length sample_heap + 5],
           chart_lines = map category (sort_descending (categoryAverages sample_artifact)) \<rparr>"
    by (simp only: EquityTrends_value [OF r] snd_conv)
  ultimately show ?thesis
    by (simp add: sample_heap_def upt_rec)
qed

theorem render_leaves_artifact_unchanged_witness:
  "take 1 (fst (EquityTrends sample_heap 0)) = sample_heap
   \<and> length (fst (EquityTrends sample_heap 0)) = 7
   \<and> read_data (fst (EquityTrends sample_heap 0)) 0 = Inr sample_artifact
   \<and> snd (EquityTrends sample_heap 0) =
       Inr \<lparr> chart = [1, 2, 3, 4, 5],
             chart_lines = [''Premium Pairs'', ''Mid Pairs'', ''High Cards'', ''Suited Connectors''] \<rparr>
   \<and> EquityTrends [] 0 = ([Object [(''players'', Num (Finite 2))]], Inl TypeError)"
proof -
  note r = read_data_sample
  have l: "length sample_heap = 1"
    by (simp add: sample_heap_def)
  note w = render_leaves_artifact_unchanged [of sample_heap 0]
  have "length (fst (EquityTrends sample_heap 0)) = 7"
    by (simp add: w [THEN conjunct2, THEN conjunct2, THEN conjunct2, THEN conjunct2] r l
        chartData_def)
  moreover have "EquityTrends [] 0 = ([Object [(''players'', Num (Finite 2))]], Inl TypeError)"
    using render_leaves_artifact_unchanged [of "[]" 0]
    by (simp add: read_data_def)
  ultimately show ?thesis
    using w [THEN conjunct1] w [THEN conjunct2, THEN conjunct1] r l trends_sample
    by simp
qed

section \<open>Carousel\<close>

lemma thenE_Inr: "thenE m f = Inr y \<Longrightarrow> \<exists>x. m = Inr x \<and> f x = Inr y"
  by (cases m) (simp_all add: thenE_def)

lemma length_insights: "length (insights k) = 9"
  by (simp add: insights_def)

lemma KeyInsights_snd:
  "snd (KeyInsights h r) =
     thenE (read_data h r) (\<lambda>data. thenE (figures data) (\<lambda>k. Inr (insights k)))"
  by (simp add: KeyInsights_def andThen_def get_data_def evaluate_def thenE_def split: sum.split)

lemma KeyInsights_length: "snd (KeyInsights h r) = Inr ins \<Longrightarrow> length ins = 9"
  by (auto simp: KeyInsights_snd length_insights dest!: thenE_Inr)

lemma carousel:
  assumes "length ins = 9" "0 \<le> i" "i \<le> 8"
  shows "prevInsight ins (nextInsight ins i) = i" "nextInsight ins (prevInsight ins i) = i"
    "0 \<le> nextInsight ins i" "nextInsight ins i \<le> 8" "0 \<le> prevInsight ins i" "prevInsight ins i \<le> 8"
proof -
  from assms(2,3) have "i = 0 \<or> i = 1 \<or> i = 2 \<or> i = 3 \<or> i = 4 \<or> i = 5 \<or> i = 6 \<or> i = 7 \<or> i = 8"
    by arith
  then show "prevInsight ins (nextInsight ins i) = i" "nextInsight ins (prevInsight ins i) = i"
    "0 \<le> nextInsight ins i" "nextInsight ins i \<le> 8" "0 \<le> prevInsight ins i" "prevInsight ins i \<le> 8"
    by (auto simp: nextInsight_def prevInsight_def js_rem_def assms(1))
qed

lemma figures_sample: "\<exists>k. figures sample_artifact = Inr k"
  by (simp add: figures_def thenE_def index_def equity100_def sample_artifact_def sample_entries_def)

text \<open>
  The figure \<^verbatim>\<open>aa_drop\<close> is the equity of \<open>AA\<close> heads-up minus its equity six-handed, in
  percent; whether it is positive is a matter of the artifact's numbers.
\<close>

lemma aa_drop_difference:
  assumes "figures data = Inr k"
    and "hands data ''AA'' = Some aaData"
    and "aaData ''players_2'' = Some hu" and "aaData ''players_6'' = Some six"
  shows "aa_drop k = fsub (fmul (number_of_real (equity hu)) (Finite 100))
                          (fmul (number_of_real (equity six)) (Finite 100))"
  using assms unfolding figures_def Let_def
  by (auto simp: thenE_def index_def equity100_def split: sum.splits option.splits)

text \<open>
  Claim C8. The array of cards has nine entries, and on the indices 0 to 8
  \<^verbatim>\<open>nextInsight\<close> and \<^verbatim>\<open>prevInsight\<close> undo each other and stay within 0 to 8.
\<close>

theorem carousel_round_trip:
  assumes "snd (KeyInsights h data_ref) = Inr ins" and "0 \<le> currentIndex" and "currentIndex \<le> 8"
  shows "length ins = 9
         \<and> prevInsight ins (nextInsight ins currentIndex) = currentIndex
         \<and> nextInsight ins (prevInsight ins currentIndex) = currentIndex
         \<and> 0 \<le> nextInsight ins currentIndex \<and> nextInsight ins currentIndex \<le> 8
         \<and> 0 \<le> prevInsight ins currentIndex \<and> prevInsight ins currentIndex \<le> 8"
proof -
  from assms(1) have "length ins = 9" by (rule KeyInsights_length)
  with assms(2,3) show ?thesis by (simp add: carousel)
qed

theorem carousel_round_trip_witness:
  "\<exists>ins. snd (KeyInsights sample_heap 0) = Inr ins \<and> (0::int) \<le> 8 \<and> (8::int) \<le> 8
     \<and> length ins = 9 \<and> nextInsight ins 8 = 0 \<and> prevInsight ins 0 = 8
     \<and> prevInsight ins (nextInsight ins 8) = 8"
proof -
  from figures_sample obtain k where "figures sample_artifact = Inr k" ..
  then have h: "snd (KeyInsights sample_heap 0) = Inr (insights k)"
    by (simp add: KeyInsights_snd read_data_sample thenE_def)
  have "(0::int) \<le> 8" "(8::int) \<le> 8" by simp_all
  from carousel_round_trip [OF h this] have
    "length (insights k) = 9 \<and> prevInsight (insights k) (nextInsight (insights k) 8) = 8"
    by simp
  moreover from this have "nextInsight (insights k) 8 = 0" "prevInsight (insights k) 0 = 8"
    by (simp_all add: nextInsight_def prevInsight_def js_rem_def)
  ultimately show ?thesis using h by auto
qed

section \<open>Home\<close>

text \<open>
  Claim C2. When the fetch fails, by a rejected promise or an unparseable body, the page
  ends with \<^verbatim>\<open>loading\<close> false and \<^verbatim>\<open>equityData\<close> null and shows the failure view,
  without an exception; the data view is shown only for a payload that was received, and
  an exception arises only in rendering one. Before the effect settles the page shows
  the loading view.
\<close>

theorem home_fetch_failure_distinct:
  "(outcome = FetchRejected \<or> outcome = JsonRejected \<longrightarrow>
      loading (useEffect_settled outcome home_init) = False
      \<and> equityData (useEffect_settled outcome home_init) = PNull
      \<and> Home (useEffect_settled outcome home_init) = Inr FailedView)
   \<and> (Home (useEffect_settled outcome home_init) = Inr (DataView d) \<longrightarrow>
        outcome = Received d \<and> truthy d)
   \<and> (Home (useEffect_settled outcome home_init) = Inl e \<longrightarrow>
        (\<exists>d'. outcome = Received d' \<and> truthy d' \<and> read_num_simulations d' = Inl e))
   \<and> Home home_init = Inr LoadingView"
  by (cases outcome)
     (auto simp: useEffect_settled_def on_error_def on_data_def home_init_def Home_def
        thenE_def split: if_splits sum.splits)

theorem home_fetch_failure_distinct_witness:
  "Home (useEffect_settled FetchRejected (home_init :: artifact home_state)) = Inr FailedView
   \<and> Home (useEffect_settled JsonRejected (home_init :: artifact home_state)) = Inr FailedView
   \<and> loading (useEffect_settled FetchRejected (home_init :: artifact home_state)) = False
   \<and> equityData (useEffect_settled JsonRejected (home_init :: artifact home_state)) = PNull
   \<and> Home (useEffect_settled
             (Received (PObj sample_artifact (Some \<lparr> num_simulations = Some 100000 \<rparr>))) home_init)
       = Inr (DataView (PObj sample_artifact (Some \<lparr> num_simulations = Some 100000 \<rparr>)))
   \<and> truthy (PObj sample_artifact (Some \<lparr> num_simulations = Some 100000 \<rparr>))
   \<and> Home (useEffect_settled (Received (PObj sample_artifact None)) home_init) = Inl TypeError
   \<and> Home (useEffect_settled (Received (PStr ''x'')) (home_init :: artifact home_state))
       = Inl TypeError
   \<and> Home (useEffect_settled (Received PNull) (home_init :: artifact home_state))
       = Inr FailedView"
  using home_fetch_failure_distinct
      [of FetchRejected "PObj sample_artifact (Some \<lparr> num_simulations = Some 100000 \<rparr>)" TypeError]
    home_fetch_failure_distinct
      [of JsonRejected "PObj sample_artifact (Some \<lparr> num_simulations = Some 100000 \<rparr>)" TypeError]
    home_fetch_failure_distinct
      [of "Received (PObj sample_artifact (Some \<lparr> num_simulations = Some 100000 \<rparr>))"
          "PObj sample_artifact (Some \<lparr> num_simulations = Some 100000 \<rparr>)" TypeError]
  by (simp add: useEffect_settled_def on_data_def on_error_def home_init_def Home_def
      read_num_simulations_def thenE_def)

section \<open>Missing entries\<close>

lemma trends_missing_hand:
  "hands data h = None \<Longrightarrow> accumulate data key acc h = acc"
  by (cases acc) (simp add: accumulate_def)

lemma trends_missing_entry:
  "hands data h = Some handData \<Longrightarrow> handData key = None \<Longrightarrow> accumulate data key acc h = acc"
  by (cases acc) (simp add: accumulate_def)

text \<open>
  Claim C1. Every component that indexes the artifact by hand label and table size is to
  treat a missing hand or a missing table-size entry as zero or unknown and never throw.
  \<^verbatim>\<open>getEquity\<close> and the chart of \<^verbatim>\<open>EquityTrends\<close> do so (the lemmas on missing hands and
  entries). \<^verbatim>\<open>KeyInsights\<close> does not: on the artifact with no hands, and on one whose
  \<open>AA\<close> lacks the entry for six players, its reads throw a TypeError, where the other
  two components give zeros.
\<close>

theorem KeyInsights_throws_on_missing_entry:
  "snd (KeyInsights [ArtifactObj empty_artifact] 0) = Inl TypeError
   \<and> snd (KeyInsights
            [ArtifactObj \<lparr> hands = [''AA'' \<mapsto> [''players_2'' \<mapsto> \<lparr> equity = 852 / 1000 \<rparr>]] \<rparr>] 0)
       = Inl TypeError
   \<and> getEquity empty_artifact 6 ''AA'' = 0
   \<and> map series (chartData empty_artifact)
       = replicate 5 [(''Premium Pairs'', Number 0), (''High Cards'', Number 0),
                      (''Mid Pairs'', Number 0), (''Suited Connectors'', Number 0)]"
  by (simp add: KeyInsights_def andThen_def get_data_def evaluate_def read_data_def figures_def
      thenE_def index_def equity100_def empty_artifact_def getEquity_def chartData_def
      accumulate_def handCategories_def numeral_eq_Suc)

end
